theory Spec2Isabelle
  imports Complex_Main "HOL-Library.AList" "HOL-Library.Multiset" "HOL-Library.Product_Lexorder"
    "HOL-Library.State_Monad"
begin

section \<open>The ledger of the calendar finance widget\<close>

text \<open>
  A shallow embedding of the data model and the ledger of \<^verbatim>\<open>src/main.py\<close>:
  the classes \<^verbatim>\<open>Transaction\<close> and \<^verbatim>\<open>FinanceBook\<close>, the loader
  \<^verbatim>\<open>load_book\<close> and the removal loop of \<^verbatim>\<open>FinanceApp.delete_selected\<close>.

  Conventions.
  \<^item> The type variable \<open>'a\<close> is the type of amounts (Python's \<^verbatim>\<open>float\<close>). The
    definitions use its \<open>0\<close>, \<open>+\<close>, \<open>-\<close> and \<open><\<close> and no law about them: a
    theorem that needs one (that \<open><\<close> orders the totals, that a sum of amounts that
    are not negative is not negative) has it as a hypothesis. So \<^verbatim>\<open>nan\<close>, which
    \<open><\<close> compares with nothing, is a value like any other to the totals and to the
    sort. Equality is the equality of HOL, which for \<^verbatim>\<open>nan\<close> (not equal to itself in
    Python) differs.
  \<^item> An exception is a value of type \<open>error\<close>; a function that can raise returns
    \<open>error + 'r\<close>, with \<open>Inl\<close> the exception.
  \<^item> A Python \<^verbatim>\<open>dict\<close> is an association list in insertion order, read with
    \<open>map_of\<close> and written with \<open>AList.update\<close> (which keeps the place of a key that
    is present and appends a new one, as a \<^verbatim>\<open>dict\<close> does).
\<close>

subsection \<open>Exceptions\<close>

datatype error =
  KeyError | TypeError | ValueError | OverflowError | AttributeError | IndexError | OSError

subsection \<open>Calendar dates\<close>

text \<open>
  \<^verbatim>\<open>datetime.date\<close>: a year, a month and a day. The class only builds dates with
  \<^verbatim>\<open>1 <= year <= 9999\<close>, \<^verbatim>\<open>1 <= month <= 12\<close> and a day that exists in the
  month; \<open>valid_date\<close> is that invariant.
\<close>

record date =
  year :: int
  month :: int
  day :: int

definition is_leap :: "int \<Rightarrow> bool" where
  "is_leap y = (y mod 4 = 0 \<and> (y mod 100 \<noteq> 0 \<or> y mod 400 = 0))"

definition days_in_month :: "int \<Rightarrow> int \<Rightarrow> int" where
  "days_in_month y m =
     (if m = 2 then (if is_leap y then 29 else 28)
      else if m = 4 \<or> m = 6 \<or> m = 9 \<or> m = 11 then 30 else 31)"

definition valid_date :: "date \<Rightarrow> bool" where
  "valid_date d =
     (1 \<le> year d \<and> year d \<le> 9999 \<and> 1 \<le> month d \<and> month d \<le> 12 \<and>
      1 \<le> day d \<and> day d \<le> days_in_month (year d) (month d))"

text \<open>\<^verbatim>\<open>date.isoformat()\<close> is \<^verbatim>\<open>"%04d-%02d-%02d" % (year, month, day)\<close>.\<close>

definition digit_char :: "int \<Rightarrow> char" where
  "digit_char n = ''0123456789'' ! nat n"

definition digits2 :: "int \<Rightarrow> string" where
  "digits2 n = [digit_char (n div 10 mod 10), digit_char (n mod 10)]"

definition digits4 :: "int \<Rightarrow> string" where
  "digits4 n = digits2 (n div 100) @ digits2 (n mod 100)"

definition isoformat :: "date \<Rightarrow> string" where
  "isoformat d = digits4 (year d) @ ''-'' @ digits2 (month d) @ ''-'' @ digits2 (day d)"

text \<open>
  Reading a date back. \<open>parse_ymd\<close> reads the form \<^verbatim>\<open>YYYY-MM-DD\<close>, which every
  version of \<^verbatim>\<open>datetime.fromisoformat\<close> accepts and which \<^verbatim>\<open>isoformat\<close>
  writes: ten characters, ASCII digits around two hyphens, naming a date that exists.
\<close>

definition digit_val :: "char \<Rightarrow> int option" where
  "digit_val c =
     map_of [(CHR ''0'', 0), (CHR ''1'', 1), (CHR ''2'', 2), (CHR ''3'', 3), (CHR ''4'', 4),
             (CHR ''5'', 5), (CHR ''6'', 6), (CHR ''7'', 7), (CHR ''8'', 8), (CHR ''9'', 9)] c"

fun parse_digits :: "string \<Rightarrow> int \<Rightarrow> int option" where
  "parse_digits [] acc = Some acc"
| "parse_digits (c # cs) acc =
     (case digit_val c of None \<Rightarrow> None | Some v \<Rightarrow> parse_digits cs (acc * 10 + v))"

definition parse_ymd :: "string \<Rightarrow> date option" where
  "parse_ymd s =
     (if length s = 10 \<and> s ! 4 = CHR ''-'' \<and> s ! 7 = CHR ''-'' then
        (case parse_digits (take 4 s) 0 of None \<Rightarrow> None | Some y \<Rightarrow>
        (case parse_digits (take 2 (drop 5 s)) 0 of None \<Rightarrow> None | Some m \<Rightarrow>
        (case parse_digits (drop 8 s) 0 of None \<Rightarrow> None | Some dd \<Rightarrow>
           (let d = \<lparr>year = y, month = m, day = dd\<rparr>
            in if valid_date d then Some d else None))))
      else None)"

subsection \<open>JSON values and the library calls of the deserializer\<close>

text \<open>
  What \<^verbatim>\<open>json.loads\<close> returns: \<^verbatim>\<open>None\<close>, a \<^verbatim>\<open>bool\<close>, an \<^verbatim>\<open>int\<close>, a
  \<^verbatim>\<open>float\<close>, a \<^verbatim>\<open>str\<close>, a \<^verbatim>\<open>list\<close> or a \<^verbatim>\<open>dict\<close> with string keys (each
  key once).
\<close>

datatype 'a json =
  JNull | JBool bool | JInt int | JFloat 'a | JStr string
  | JList "'a json list" | JDict "(string \<times> 'a json) list"

text \<open>
  The deserializer calls three library functions: \<^verbatim>\<open>datetime.fromisoformat\<close>,
  \<^verbatim>\<open>float\<close> and \<^verbatim>\<open>str\<close>. Where the outcome is fixed by the argument's type or
  form the model computes it; the rest of their behaviour is a parameter \<open>L\<close> of the
  model, so that a theorem with \<open>L\<close> free holds whatever the library does there:
  \<^item> \<open>iso_other\<close>: the date of a string that is not a valid \<^verbatim>\<open>YYYY-MM-DD\<close>
    (newer Python versions read more ISO 8601 forms and drop a time part; \<open>None\<close> is
    \<^verbatim>\<open>ValueError\<close>);
  \<^item> \<open>float_of_str\<close>: \<^verbatim>\<open>float(s)\<close> of a string (\<open>None\<close> is \<^verbatim>\<open>ValueError\<close>);
  \<^item> \<open>float_of_int\<close>: \<^verbatim>\<open>float(n)\<close> of an integer (\<open>None\<close> is
    \<^verbatim>\<open>OverflowError\<close>);
  \<^item> \<open>str_of\<close>: \<^verbatim>\<open>str(v)\<close> of a value that is not a string.
\<close>

record 'a pylib =
  iso_other :: "string \<Rightarrow> date option"
  float_of_str :: "string \<Rightarrow> 'a option"
  float_of_int :: "int \<Rightarrow> 'a option"
  str_of :: "'a json \<Rightarrow> string"

text \<open>\<^verbatim>\<open>datetime.fromisoformat(v).date()\<close>\<close>

definition fromisoformat :: "'a pylib \<Rightarrow> 'a json \<Rightarrow> error + date" where
  "fromisoformat L v =
     (case v of
        JStr s \<Rightarrow>
          (case parse_ymd s of
             Some d \<Rightarrow> Inr d
           | None \<Rightarrow> (case iso_other L s of Some d \<Rightarrow> Inr d | None \<Rightarrow> Inl ValueError))
      | _ \<Rightarrow> Inl TypeError)"

text \<open>\<^verbatim>\<open>float(v)\<close>; a \<^verbatim>\<open>bool\<close> is an \<^verbatim>\<open>int\<close>.\<close>

definition py_float :: "'a pylib \<Rightarrow> 'a json \<Rightarrow> error + 'a" where
  "py_float L v =
     (case v of
        JFloat a \<Rightarrow> Inr a
      | JInt n \<Rightarrow> (case float_of_int L n of Some a \<Rightarrow> Inr a | None \<Rightarrow> Inl OverflowError)
      | JBool b \<Rightarrow>
          (case float_of_int L (if b then 1 else 0) of
             Some a \<Rightarrow> Inr a | None \<Rightarrow> Inl OverflowError)
      | JStr s \<Rightarrow> (case float_of_str L s of Some a \<Rightarrow> Inr a | None \<Rightarrow> Inl ValueError)
      | _ \<Rightarrow> Inl TypeError)"

text \<open>\<^verbatim>\<open>str(v)\<close>\<close>

definition py_str :: "'a pylib \<Rightarrow> 'a json \<Rightarrow> string" where
  "py_str L v = (case v of JStr s \<Rightarrow> s | _ \<Rightarrow> str_of L v)"

subsection \<open>Transaction\<close>

record 'a Transaction =
  date :: date
  amount :: 'a
  party :: string
  category :: string
  kind :: string

text \<open>
  \<^verbatim>\<open>to_json\<close>: \<^verbatim>\<open>asdict\<close> lists the fields in their order; the date is replaced
  by its ISO string.
\<close>

definition to_json :: "'a Transaction \<Rightarrow> 'a json" where
  "to_json t =
     JDict [(''date'', JStr (isoformat (date t))),
            (''amount'', JFloat (amount t)),
            (''party'', JStr (party t)),
            (''category'', JStr (category t)),
            (''kind'', JStr (kind t))]"

text \<open>
  \<^verbatim>\<open>from_json\<close>. The arguments of the constructor are evaluated in the order
  written, so the first failing field decides the exception: \<^verbatim>\<open>data["date"]\<close> and
  \<^verbatim>\<open>data["amount"]\<close> and \<^verbatim>\<open>data["kind"]\<close> raise \<^verbatim>\<open>KeyError\<close> when the key is
  absent, \<^verbatim>\<open>data.get\<close> supplies \<^verbatim>\<open>""\<close>. Subscripting a value that is not a
  \<^verbatim>\<open>dict\<close> with a string raises \<^verbatim>\<open>TypeError\<close>.
\<close>

definition subscript :: "(string \<times> 'a json) list \<Rightarrow> string \<Rightarrow> error + 'a json" where
  "subscript d key = (case map_of d key of None \<Rightarrow> Inl KeyError | Some v \<Rightarrow> Inr v)"

definition get_or_empty :: "(string \<times> 'a json) list \<Rightarrow> string \<Rightarrow> 'a json" where
  "get_or_empty d key = (case map_of d key of None \<Rightarrow> JStr [] | Some v \<Rightarrow> v)"

definition from_json :: "'a pylib \<Rightarrow> 'a json \<Rightarrow> error + 'a Transaction" where
  "from_json L data =
     (case data of
        JDict d \<Rightarrow>
          (case subscript d ''date'' of Inl e \<Rightarrow> Inl e | Inr dv \<Rightarrow>
          (case fromisoformat L dv of Inl e \<Rightarrow> Inl e | Inr dt \<Rightarrow>
          (case subscript d ''amount'' of Inl e \<Rightarrow> Inl e | Inr av \<Rightarrow>
          (case py_float L av of Inl e \<Rightarrow> Inl e | Inr a \<Rightarrow>
          (case subscript d ''kind'' of Inl e \<Rightarrow> Inl e | Inr kv \<Rightarrow>
             Inr \<lparr>date = dt, amount = a,
                  party = py_str L (get_or_empty d ''party''),
                  category = py_str L (get_or_empty d ''category''),
                  kind = py_str L kv\<rparr>)))))
      | _ \<Rightarrow> Inl TypeError)"

subsection \<open>FinanceBook\<close>

record 'a FinanceBook =
  transactions :: "'a Transaction list"

text \<open>\<^verbatim>\<open>__init__\<close>: \<^verbatim>\<open>self.transactions = transactions or []\<close>\<close>

definition new_book :: "'a Transaction list \<Rightarrow> 'a FinanceBook" where
  "new_book txs = \<lparr>transactions = (if txs = [] then [] else txs)\<rparr>"

definition add :: "'a FinanceBook \<Rightarrow> 'a Transaction \<Rightarrow> 'a FinanceBook" where
  "add book tx = book\<lparr>transactions := transactions book @ [tx]\<rparr>"

text \<open>
  \<^verbatim>\<open>all_years\<close>; \<open>today\<close> is what \<^verbatim>\<open>date.today()\<close> returns. An empty list is
  false, so \<^verbatim>\<open>years or [...]\<close> takes the second list exactly then.
\<close>

definition all_years :: "date \<Rightarrow> 'a FinanceBook \<Rightarrow> int list" where
  "all_years today book =
     (let years = sorted_list_of_set ((\<lambda>tx. year (date tx)) ` set (transactions book))
      in if years = [] then [year today] else years)"

definition for_year :: "'a FinanceBook \<Rightarrow> int \<Rightarrow> 'a Transaction list" where
  "for_year book y = filter (\<lambda>tx. year (date tx) = y) (transactions book)"

definition for_year_and_month :: "'a FinanceBook \<Rightarrow> int \<Rightarrow> int option \<Rightarrow> 'a Transaction list" where
  "for_year_and_month book y mo =
     (case mo of
        None \<Rightarrow> for_year book y
      | Some m \<Rightarrow> filter (\<lambda>tx. year (date tx) = y \<and> month (date tx) = m) (transactions book))"

text \<open>
  \<^verbatim>\<open>monthly_totals\<close>. Each value of the result is a \<^verbatim>\<open>dict\<close> with the
  three keys \<^verbatim>\<open>"income"\<close>, \<^verbatim>\<open>"expense"\<close> and \<^verbatim>\<open>"net"\<close>: a record. The first
  loop adds each transaction of the year to the bucket of its month, and
  \<^verbatim>\<open>totals[tx.date.month]\<close> raises \<^verbatim>\<open>KeyError\<close> for a month that is no key; the
  second loop sets \<^verbatim>\<open>net\<close> in every bucket.
\<close>

record 'a bucket =
  income :: 'a
  expense :: 'a
  net :: 'a

fun add_to_months ::
  "'a::plus Transaction list \<Rightarrow> (int \<times> 'a bucket) list \<Rightarrow> error + (int \<times> 'a bucket) list" where
  "add_to_months [] totals = Inr totals"
| "add_to_months (tx # txs) totals =
     (case map_of totals (month (date tx)) of
        None \<Rightarrow> Inl KeyError
      | Some b \<Rightarrow>
          add_to_months txs
            (AList.update (month (date tx))
               (if kind tx = ''income'' then b\<lparr>income := income b + amount tx\<rparr>
                else b\<lparr>expense := expense b + amount tx\<rparr>)
               totals))"

definition set_net :: "'a::minus bucket \<Rightarrow> 'a bucket" where
  "set_net b = b\<lparr>net := income b - expense b\<rparr>"

definition monthly_totals ::
  "'a::{zero,plus,minus} FinanceBook \<Rightarrow> int \<Rightarrow> error + (int \<times> 'a bucket) list" where
  "monthly_totals book y =
     (case add_to_months (for_year book y)
             (map (\<lambda>m. (m, \<lparr>income = 0, expense = 0, net = 0\<rparr>)) [1..12]) of
        Inl e \<Rightarrow> Inl e
      | Inr totals \<Rightarrow> Inr (map (\<lambda>(m, b). (m, set_net b)) totals))"

text \<open>
  \<^verbatim>\<open>sum\<close> adds from the left, starting at \<^verbatim>\<open>0\<close> (newer Python versions
  also compensate the rounding error of a sum of floats, which exact addition does not
  see). \<^verbatim>\<open>yearly_totals\<close> sums over the keys of the monthly totals in their order;
  \<^verbatim>\<open>mt[m]\<close> is the value stored with the key \<^verbatim>\<open>m\<close>.
\<close>

definition py_sum :: "'a::{zero,plus} list \<Rightarrow> 'a" where
  "py_sum xs = foldl (+) 0 xs"

definition yearly_totals :: "'a::{zero,plus,minus} FinanceBook \<Rightarrow> int \<Rightarrow> error + 'a bucket" where
  "yearly_totals book y =
     (case monthly_totals book y of
        Inl e \<Rightarrow> Inl e
      | Inr mt \<Rightarrow>
          (let inc = py_sum (map (\<lambda>(m, b). income b) mt);
               out = py_sum (map (\<lambda>(m, b). expense b) mt)
           in Inr \<lparr>income = inc, expense = out, net = inc - out\<rparr>))"

text \<open>
  \<^verbatim>\<open>category_totals\<close>. \<^verbatim>\<open>buckets\<close> is a \<^verbatim>\<open>defaultdict(float)\<close>: reading a
  key that is absent gives \<^verbatim>\<open>0.0\<close>, so \<^verbatim>\<open>buckets[c] += a\<close> stores \<open>0 + a\<close>
  under a new key, at the end. An empty category is false, so
  \<^verbatim>\<open>tx.category or "(uncategorized)"\<close> replaces exactly the empty string.
\<close>

definition label :: "'a Transaction \<Rightarrow> string" where
  "label tx = (if category tx = [] then ''(uncategorized)'' else category tx)"

definition get_or_zero :: "(string \<times> 'a::zero) list \<Rightarrow> string \<Rightarrow> 'a" where
  "get_or_zero buckets c = (case map_of buckets c of None \<Rightarrow> 0 | Some v \<Rightarrow> v)"

fun add_to_buckets ::
  "'a::{zero,plus} Transaction list \<Rightarrow> string \<Rightarrow> (string \<times> 'a) list \<Rightarrow> (string \<times> 'a) list" where
  "add_to_buckets [] k buckets = buckets"
| "add_to_buckets (tx # txs) k buckets =
     add_to_buckets txs k
       (if kind tx = k
        then AList.update (label tx) (get_or_zero buckets (label tx) + amount tx) buckets
        else buckets)"

text \<open>
  \<^verbatim>\<open>sorted(buckets.items(), key=lambda kv: kv[1], reverse=True)\<close> compares totals
  with \<open><\<close> only. For \<^verbatim>\<open>reverse=True\<close> the list is reversed, sorted by the stable
  ascending sort and reversed again. What the ascending sort returns:
  \<^item> When \<open><\<close> orders the keys (no key below itself, \<open><\<close> transitive, and a key
    between two others below or above one of them: every list of floats without
    \<^verbatim>\<open>nan\<close>), the result is the one stable sorted list, which inserting the items one
    after the other, each behind the items that are not greater, computes.
  \<^item> When no item is less than the one before it, the list is one ascending run and
    the sort leaves it as it is.
  \<^item> On other lists (with a \<^verbatim>\<open>nan\<close> among the keys) the order depends on the
    sorting algorithm; it is the parameter \<open>other\<close> of the model.
\<close>

definition weakly_ordered :: "'a::ord list \<Rightarrow> bool" where
  "weakly_ordered ks =
     ((\<forall>a\<in>set ks. \<not> a < a) \<and>
      (\<forall>a\<in>set ks. \<forall>b\<in>set ks. \<forall>c\<in>set ks.
         (a < b \<and> b < c \<longrightarrow> a < c) \<and> (a < b \<longrightarrow> a < c \<or> c < b)))"

fun one_run :: "'a::ord list \<Rightarrow> bool" where
  "one_run (a # b # ks) = (\<not> b < a \<and> one_run (b # ks))"
| "one_run ks = True"

fun insert_by :: "('b \<Rightarrow> 'a::ord) \<Rightarrow> 'b \<Rightarrow> 'b list \<Rightarrow> 'b list" where
  "insert_by f x [] = [x]"
| "insert_by f x (y # ys) = (if f x < f y then x # y # ys else y # insert_by f x ys)"

definition stable_sort_by :: "('b \<Rightarrow> 'a::ord) \<Rightarrow> 'b list \<Rightarrow> 'b list" where
  "stable_sort_by f xs = foldl (\<lambda>sorted_part x. insert_by f x sorted_part) [] xs"

definition sort_by_total ::
  "((string \<times> 'a::ord) list \<Rightarrow> (string \<times> 'a) list) \<Rightarrow> (string \<times> 'a) list \<Rightarrow> (string \<times> 'a) list" where
  "sort_by_total other xs =
     (if weakly_ordered (map snd xs) then stable_sort_by snd xs
      else if one_run (map snd xs) then xs
      else other xs)"

definition category_totals ::
  "((string \<times> 'a) list \<Rightarrow> (string \<times> 'a) list) \<Rightarrow> 'a::{zero,plus,ord} FinanceBook \<Rightarrow> int \<Rightarrow> string \<Rightarrow>
     int option \<Rightarrow> (string \<times> 'a) list" where
  "category_totals other book y k mo =
     rev (sort_by_total other (rev (add_to_buckets (for_year_and_month book y mo) k [])))"

subsection \<open>Storage\<close>

text \<open>
  \<^verbatim>\<open>load_book\<close> reads \<^verbatim>\<open>finance_data.json\<close>. What it finds there is its input:
  no file, a file that cannot be read, a text that is not JSON, or the value
  \<^verbatim>\<open>json.loads\<close> returns. Everything after the test for existence runs inside
  \<^verbatim>\<open>try ... except Exception\<close>.
  \<^item> \<^verbatim>\<open>raw.get("transactions", [])\<close> needs a \<^verbatim>\<open>dict\<close>; other values have no
    \<^verbatim>\<open>get\<close>.
  \<^item> The comprehension iterates over the value found: the items of a list, the keys of
    a \<^verbatim>\<open>dict\<close>, the characters of a string; other values are not iterable.
  \<^item> The comprehension stops at the first item on which \<^verbatim>\<open>from_json\<close> raises.
\<close>

datatype 'a data_file = NoFile | ReadError | DecodeError | Parsed "'a json"

definition get_transactions :: "'a json \<Rightarrow> error + 'a json" where
  "get_transactions raw =
     (case raw of
        JDict d \<Rightarrow> Inr (case map_of d ''transactions'' of None \<Rightarrow> JList [] | Some v \<Rightarrow> v)
      | _ \<Rightarrow> Inl AttributeError)"

definition py_iter :: "'a json \<Rightarrow> error + 'a json list" where
  "py_iter v =
     (case v of
        JList items \<Rightarrow> Inr items
      | JDict d \<Rightarrow> Inr (map (\<lambda>(key, x). JStr key) d)
      | JStr s \<Rightarrow> Inr (map (\<lambda>c. JStr [c]) s)
      | _ \<Rightarrow> Inl TypeError)"

fun from_json_all :: "'a pylib \<Rightarrow> 'a json list \<Rightarrow> error + 'a Transaction list" where
  "from_json_all L [] = Inr []"
| "from_json_all L (item # items) =
     (case from_json L item of
        Inl e \<Rightarrow> Inl e
      | Inr tx \<Rightarrow>
          (case from_json_all L items of Inl e \<Rightarrow> Inl e | Inr txs \<Rightarrow> Inr (tx # txs)))"

definition read_book :: "'a pylib \<Rightarrow> 'a data_file \<Rightarrow> error + 'a FinanceBook" where
  "read_book L f =
     (case f of
        Parsed raw \<Rightarrow>
          (case get_transactions raw of Inl e \<Rightarrow> Inl e | Inr v \<Rightarrow>
          (case py_iter v of Inl e \<Rightarrow> Inl e | Inr items \<Rightarrow>
          (case from_json_all L items of Inl e \<Rightarrow> Inl e | Inr txs \<Rightarrow> Inr (new_book txs))))
      | DecodeError \<Rightarrow> Inl ValueError
      | _ \<Rightarrow> Inl OSError)"

definition load_book :: "'a pylib \<Rightarrow> 'a data_file \<Rightarrow> 'a FinanceBook" where
  "load_book L f =
     (case f of
        NoFile \<Rightarrow> new_book []
      | _ \<Rightarrow> (case read_book L f of Inl e \<Rightarrow> new_book [] | Inr book \<Rightarrow> book))"

subsection \<open>Removal\<close>

text \<open>
  The ledger has no method for removal: \<^verbatim>\<open>delete_selected\<close> calls
  \<^verbatim>\<open>self.book.transactions.remove(target)\<close>, the \<^verbatim>\<open>remove\<close> of Python's lists. It
  deletes the first item equal to its argument and raises \<^verbatim>\<open>ValueError\<close> when no item
  is. Two transactions are equal when their five fields are (the \<^verbatim>\<open>__eq__\<close> of a
  dataclass), which is the equality of the record.
\<close>

fun list_remove :: "'b list \<Rightarrow> 'b \<Rightarrow> error + 'b list" where
  "list_remove [] x = Inl ValueError"
| "list_remove (y # ys) x =
     (if y = x then Inr ys
      else (case list_remove ys x of Inl e \<Rightarrow> Inl e | Inr zs \<Rightarrow> Inr (y # zs)))"

text \<open>
  The statement on a ledger: the exception raised, if any, and the ledger afterwards.
\<close>

definition remove :: "'a FinanceBook \<Rightarrow> 'a Transaction \<Rightarrow> error option \<times> 'a FinanceBook" where
  "remove book tx =
     (case list_remove (transactions book) tx of
        Inl e \<Rightarrow> (Some e, book)
      | Inr txs \<Rightarrow> (None, book\<lparr>transactions := txs\<rparr>))"





subsection \<open>The methods as state transformers\<close>

text \<open>
  The methods once more, now as programs that run on the object \<^verbatim>\<open>self\<close> and return
  their result together with the object afterwards. A body reads \<^verbatim>\<open>self.transactions\<close>
  with \<open>State_Monad.get\<close>, writes it with \<open>State_Monad.update\<close> or \<open>State_Monad.set\<close>,
  and calls another method of \<^verbatim>\<open>self\<close> by running that method's program on the
  current state. The lists and dictionaries a body builds are new objects, local to the
  call, and its loops work on them; an exception is the result \<open>Inl\<close>.
\<close>

definition add_m :: "'a Transaction \<Rightarrow> ('a FinanceBook, unit) state" where
  "add_m tx = State_Monad.update (\<lambda>self. self\<lparr>transactions := transactions self @ [tx]\<rparr>)"

definition remove_m :: "'a Transaction \<Rightarrow> ('a FinanceBook, error option) state" where
  "remove_m tx = do {
     self \<leftarrow> State_Monad.get;
     (case list_remove (transactions self) tx of
        Inl e \<Rightarrow> State_Monad.return (Some e)
      | Inr txs \<Rightarrow> do {
          State_Monad.set (self\<lparr>transactions := txs\<rparr>);
          State_Monad.return None
        })
   }"

definition all_years_m :: "date \<Rightarrow> ('a FinanceBook, int list) state" where
  "all_years_m today = do {
     self \<leftarrow> State_Monad.get;
     let years = sorted_list_of_set ((\<lambda>tx. year (date tx)) ` set (transactions self));
     State_Monad.return (if years = [] then [year today] else years)
   }"

definition for_year_m :: "int \<Rightarrow> ('a FinanceBook, 'a Transaction list) state" where
  "for_year_m y = do {
     self \<leftarrow> State_Monad.get;
     State_Monad.return [tx\<leftarrow>transactions self. year (date tx) = y]
   }"

definition for_year_and_month_m ::
  "int \<Rightarrow> int option \<Rightarrow> ('a FinanceBook, 'a Transaction list) state" where
  "for_year_and_month_m y mo =
     (case mo of
        None \<Rightarrow> for_year_m y
      | Some m \<Rightarrow> do {
          self \<leftarrow> State_Monad.get;
          State_Monad.return [tx\<leftarrow>transactions self. year (date tx) = y \<and> month (date tx) = m]
        })"

definition monthly_totals_m ::
  "int \<Rightarrow> ('a::{zero,plus,minus} FinanceBook, error + (int \<times> 'a bucket) list) state" where
  "monthly_totals_m y = do {
     let totals = map (\<lambda>m. (m, \<lparr>income = 0, expense = 0, net = 0\<rparr>)) [1..12];
     txs \<leftarrow> for_year_m y;
     State_Monad.return
       (case add_to_months txs totals of
          Inl e \<Rightarrow> Inl e
        | Inr totals' \<Rightarrow> Inr (map (\<lambda>(m, b). (m, set_net b)) totals'))
   }"

definition yearly_totals_m ::
  "int \<Rightarrow> ('a::{zero,plus,minus} FinanceBook, error + 'a bucket) state" where
  "yearly_totals_m y = do {
     r \<leftarrow> monthly_totals_m y;
     State_Monad.return
       (case r of
          Inl e \<Rightarrow> Inl e
        | Inr mt \<Rightarrow>
            (let inc = py_sum (map (\<lambda>(m, b). income b) mt);
                 out = py_sum (map (\<lambda>(m, b). expense b) mt)
             in Inr \<lparr>income = inc, expense = out, net = inc - out\<rparr>))
   }"

definition category_totals_m ::
  "((string \<times> 'a) list \<Rightarrow> (string \<times> 'a) list) \<Rightarrow> int \<Rightarrow> string \<Rightarrow> int option \<Rightarrow>
     ('a::{zero,plus,ord} FinanceBook, (string \<times> 'a) list) state" where
  "category_totals_m other y k mo = do {
     txs \<leftarrow> for_year_and_month_m y mo;
     let buckets = add_to_buckets txs k [];
     State_Monad.return (rev (sort_by_total other (rev buckets)))
   }"

subsection \<open>Values for the examples\<close>

text \<open>
  The examples fix the library: one that reads no date but \<^verbatim>\<open>YYYY-MM-DD\<close> and no
  number from a string, and converts every integer. They use it only on strings that
  Python rejects as well.
\<close>

definition example_lib :: "real pylib" where
  "example_lib =
     \<lparr>iso_other = (\<lambda>s. None), float_of_str = (\<lambda>s. None),
      float_of_int = (\<lambda>n. Some (of_int n)), str_of = (\<lambda>v. ''?'')\<rparr>"

definition salary :: "real Transaction" where
  "salary = \<lparr>date = \<lparr>year = 2024, month = 1, day = 15\<rparr>, amount = 100, party = [],
             category = [], kind = ''income''\<rparr>"

definition food_jan :: "real Transaction" where
  "food_jan = \<lparr>date = \<lparr>year = 2024, month = 1, day = 20\<rparr>, amount = 40, party = [],
               category = ''Food'', kind = ''expense''\<rparr>"

definition food_feb :: "real Transaction" where
  "food_feb = \<lparr>date = \<lparr>year = 2024, month = 2, day = 1\<rparr>, amount = 10, party = [],
               category = ''Food'', kind = ''expense''\<rparr>"

definition transfer :: "real Transaction" where
  "transfer = \<lparr>date = \<lparr>year = 2024, month = 1, day = 15\<rparr>, amount = 5, party = [],
               category = [], kind = ''transfer''\<rparr>"

definition example_book :: "real FinanceBook" where
  "example_book = \<lparr>transactions = [salary, food_jan, food_feb]\<rparr>"

definition rent :: "real Transaction" where
  "rent = \<lparr>date = \<lparr>year = 2024, month = 1, day = 2\<rparr>, amount = 50, party = ''Landlord'',
           category = ''Rent'', kind = ''expense''\<rparr>"

definition cash :: "real Transaction" where
  "cash = \<lparr>date = \<lparr>year = 2024, month = 2, day = 10\<rparr>, amount = 50, party = [],
           category = [], kind = ''expense''\<rparr>"

definition cinema :: "real Transaction" where
  "cinema = \<lparr>date = \<lparr>year = 2024, month = 2, day = 14\<rparr>, amount = 70, party = [],
             category = ''Fun'', kind = ''expense''\<rparr>"

definition old_rent :: "real Transaction" where
  "old_rent = \<lparr>date = \<lparr>year = 2023, month = 12, day = 2\<rparr>, amount = 900,
               party = ''Landlord'', category = ''Rent'', kind = ''expense''\<rparr>"

definition ranked_book :: "real FinanceBook" where
  "ranked_book =
     \<lparr>transactions = [old_rent, food_jan, rent, salary, food_feb, cash, cinema]\<rparr>"

text \<open>
  For the example with \<^verbatim>\<open>nan\<close>, a float is a number or \<^verbatim>\<open>nan\<close>: a sum with
  \<^verbatim>\<open>nan\<close> is \<^verbatim>\<open>nan\<close>, and no comparison with \<^verbatim>\<open>nan\<close> holds. (The numbers
  of the example are added exactly by floats as well.)
\<close>

datatype pyfloat = Num real | NaN

instantiation pyfloat :: "{zero,plus,ord}"
begin

definition zero_pyfloat :: pyfloat where
  "zero_pyfloat = Num 0"

definition plus_pyfloat :: "pyfloat \<Rightarrow> pyfloat \<Rightarrow> pyfloat" where
  "plus_pyfloat a b = (case (a, b) of (Num x, Num y) \<Rightarrow> Num (x + y) | _ \<Rightarrow> NaN)"

definition less_pyfloat :: "pyfloat \<Rightarrow> pyfloat \<Rightarrow> bool" where
  "less_pyfloat a b = (case (a, b) of (Num x, Num y) \<Rightarrow> x < y | _ \<Rightarrow> False)"

definition less_eq_pyfloat :: "pyfloat \<Rightarrow> pyfloat \<Rightarrow> bool" where
  "less_eq_pyfloat a b = (case (a, b) of (Num x, Num y) \<Rightarrow> x \<le> y | _ \<Rightarrow> False)"

instance ..

end

definition food5 :: "pyfloat Transaction" where
  "food5 = \<lparr>date = \<lparr>year = 2024, month = 3, day = 1\<rparr>, amount = Num 5, party = [],
            category = ''Food'', kind = ''expense''\<rparr>"

definition nan_x :: "pyfloat Transaction" where
  "nan_x = \<lparr>date = \<lparr>year = 2024, month = 3, day = 2\<rparr>, amount = NaN, party = [],
            category = ''X'', kind = ''expense''\<rparr>"

definition rent700 :: "pyfloat Transaction" where
  "rent700 = \<lparr>date = \<lparr>year = 2024, month = 3, day = 3\<rparr>, amount = Num 700, party = [],
              category = ''Rent'', kind = ''expense''\<rparr>"

definition nan_book :: "pyfloat FinanceBook" where
  "nan_book = \<lparr>transactions = [food5, nan_x, rent700]\<rparr>"

definition bad_amount :: "real json" where
  "bad_amount =
     JDict [(''date'', JStr ''2024-03-01''), (''amount'', JStr ''abc''),
            (''kind'', JStr ''income'')]"

section \<open>Properties\<close>

lemmas example_defs = example_lib_def salary_def food_jan_def food_feb_def transfer_def
  example_book_def bad_amount_def rent_def cash_def cinema_def old_rent_def ranked_book_def

lemmas date_defs = parse_ymd_def digit_val_def valid_date_def days_in_month_def is_leap_def
  isoformat_def digits4_def digits2_def digit_char_def

lemmas json_defs = from_json_def to_json_def subscript_def get_or_empty_def fromisoformat_def
  py_float_def py_str_def

subsection \<open>Dates survive the round trip through their ISO form\<close>

lemma digit_val_digit_char: "0 \<le> n \<Longrightarrow> n < 10 \<Longrightarrow> digit_val (digit_char n) = Some n"
proof -
  assume "0 \<le> n" "n < 10"
  then have "n \<in> {0, 1, 2, 3, 4, 5, 6, 7, 8, 9}"
    by simp arith
  then show ?thesis
    by (auto simp: digit_char_def digit_val_def)
qed

lemma parse_digits_append:
  "parse_digits (xs @ ys) acc =
     (case parse_digits xs acc of None \<Rightarrow> None | Some v \<Rightarrow> parse_digits ys v)"
  by (induction xs arbitrary: acc) (auto split: option.splits)

lemma parse_digits_digits2:
  assumes "0 \<le> n" "n < 100"
  shows "parse_digits (digits2 n) acc = Some (acc * 100 + n)"
proof -
  define q r where "q = n div 10 mod 10" and "r = n mod 10"
  have q: "digit_val (digit_char q) = Some q" and r: "digit_val (digit_char r) = Some r"
    by (simp_all add: q_def r_def digit_val_digit_char)
  have "n div 10 < 10" using assms by simp
  then have "q = n div 10" using assms by (simp add: q_def)
  then have "n = q * 10 + r" by (simp add: r_def)
  then have "(acc * 10 + q) * 10 + r = acc * 100 + n"
    by (simp add: algebra_simps)
  moreover have "digits2 n = [digit_char q, digit_char r]"
    by (simp add: digits2_def q_def r_def)
  ultimately show ?thesis
    by (simp add: q r)
qed

lemma parse_digits_digits4:
  assumes "0 \<le> n" "n < 10000"
  shows "parse_digits (digits4 n) 0 = Some n"
proof -
  have "0 \<le> n div 100" "n div 100 < 100" "0 \<le> n mod 100" "n mod 100 < 100"
    using assms by simp_all
  then show ?thesis
    by (simp add: digits4_def parse_digits_append parse_digits_digits2)
qed

lemma length_digits2: "length (digits2 n) = 2"
  by (simp add: digits2_def)

lemma length_digits4: "length (digits4 n) = 4"
  by (simp add: digits4_def length_digits2)

lemma parse_ymd_isoformat:
  assumes "valid_date d"
  shows "parse_ymd (isoformat d) = Some d"
proof -
  have y: "0 \<le> year d" "year d < 10000" and m: "0 \<le> month d" "month d < 100"
    using assms by (simp_all add: valid_date_def)
  have "day d \<le> 31"
    using assms by (simp add: valid_date_def days_in_month_def split: if_splits)
  then have dd: "0 \<le> day d" "day d < 100"
    using assms by (simp_all add: valid_date_def)
  have len: "length (isoformat d) = 10"
    by (simp add: isoformat_def length_digits2 length_digits4)
  have h1: "isoformat d ! 4 = CHR ''-''"
    by (simp add: isoformat_def nth_append length_digits4)
  have h2: "isoformat d ! 7 = CHR ''-''"
    by (simp add: isoformat_def nth_append length_digits4 length_digits2)
  have t1: "take 4 (isoformat d) = digits4 (year d)"
    by (simp add: isoformat_def length_digits4)
  have t2: "take 2 (drop 5 (isoformat d)) = digits2 (month d)"
    by (simp add: isoformat_def length_digits4 length_digits2)
  have t3: "drop 8 (isoformat d) = digits2 (day d)"
    by (simp add: isoformat_def length_digits4 length_digits2)
  have r: "\<lparr>year = year d, month = month d, day = day d\<rparr> = d"
    by simp
  show ?thesis
    unfolding parse_ymd_def len h1 h2 t1 t2 t3
    using assms
    by (simp add: parse_digits_digits4[OF y] parse_digits_digits2[OF m]
        parse_digits_digits2[OF dd] r)
qed

lemma parse_ymd_examples:
  "parse_ymd ''2024-01-15'' = Some \<lparr>year = 2024, month = 1, day = 15\<rparr>"
  "parse_ymd ''2024-03-01'' = Some \<lparr>year = 2024, month = 3, day = 1\<rparr>"
  by (simp_all add: date_defs)

lemma valid_date_examples:
  "valid_date \<lparr>year = 2024, month = 1, day = 15\<rparr>"
  "valid_date \<lparr>year = 2024, month = 1, day = 20\<rparr>"
  "valid_date \<lparr>year = 2024, month = 2, day = 1\<rparr>"
  by (simp_all add: date_defs)

lemma to_json_salary:
  "to_json salary =
     JDict [(''date'', JStr ''2024-01-15''), (''amount'', JFloat 100),
            (''party'', JStr []), (''category'', JStr []), (''kind'', JStr ''income'')]"
  by (simp add: to_json_def salary_def date_defs)

lemma from_json_salary: "from_json example_lib (to_json salary) = Inr salary"
  by (simp add: to_json_salary) (simp add: json_defs salary_def parse_ymd_examples)

lemma from_json_bad_amount: "from_json example_lib bad_amount = Inl ValueError"
  by (simp add: json_defs bad_amount_def example_lib_def parse_ymd_examples)

subsection \<open>Serialization\<close>

text \<open>
  Claim C7. For every transaction \<open>t\<close> (its date a date of the calendar, as every
  \<^verbatim>\<open>datetime.date\<close> is), deserializing the serialized \<open>t\<close> succeeds and gives \<open>t\<close>
  back, whatever the library does elsewhere; so serializing, deserializing and
  serializing again yields the serialized record of \<open>t\<close>:
  \<^verbatim>\<open>serialize(deserialize(serialize(t))) == serialize(t)\<close>.
\<close>

theorem serialize_round_trip:
  "valid_date (date t) \<Longrightarrow>
     from_json L (to_json t) = Inr t \<and>
     map_sum id to_json (from_json L (to_json t)) = Inr (to_json t)"
  by (simp add: json_defs parse_ymd_isoformat)

text \<open>The round trip of the transaction \<open>salary\<close>, of 2024-01-15.\<close>

theorem serialize_round_trip_witness:
  "valid_date (date salary) \<and>
   from_json example_lib (to_json salary) = Inr salary \<and>
   map_sum id to_json (from_json example_lib (to_json salary)) =
     Inr (JDict [(''date'', JStr ''2024-01-15''), (''amount'', JFloat 100),
                 (''party'', JStr []), (''category'', JStr []), (''kind'', JStr ''income'')])"
proof -
  have v: "valid_date (date salary)"
    by (simp add: salary_def valid_date_examples)
  from to_json_salary v serialize_round_trip[OF v, of example_lib] show ?thesis
    by simp
qed

text \<open>
  Claim C9. There is an input record with a valid date and kind and the negative amount
  \<^verbatim>\<open>-5.0\<close> on which \<^verbatim>\<open>from_json\<close> succeeds and returns a transaction with that
  amount: nothing checks the sign. A file holding this record loads into a ledger with a
  transaction whose amount is below zero.
\<close>

theorem from_json_accepts_negative_amount:
  fixes L :: "real pylib"
  shows
    "from_json L (JDict [(''date'', JStr ''2024-01-15''), (''amount'', JFloat (- 5)),
                         (''kind'', JStr ''expense'')])
       = Inr \<lparr>date = \<lparr>year = 2024, month = 1, day = 15\<rparr>, amount = - 5, party = [],
              category = [], kind = ''expense''\<rparr> \<and>
     load_book L (Parsed (JDict [(''transactions'',
        JList [JDict [(''date'', JStr ''2024-01-15''), (''amount'', JFloat (- 5)),
                      (''kind'', JStr ''expense'')]])]))
       = \<lparr>transactions = [\<lparr>date = \<lparr>year = 2024, month = 1, day = 15\<rparr>, amount = - 5,
                             party = [], category = [], kind = ''expense''\<rparr>]\<rparr> \<and>
     amount \<lparr>date = \<lparr>year = 2024, month = 1, day = 15\<rparr>, amount = - 5 :: real, party = [],
              category = [], kind = ''expense''\<rparr> < 0"
  by (simp add: json_defs parse_ymd_examples load_book_def read_book_def get_transactions_def
      py_iter_def new_book_def)

text \<open>
  Claim C2, as stated, fails: a record whose \<^verbatim>\<open>kind\<close> is \<^verbatim>\<open>"transfer"\<close> is
  deserialized, and the transaction returned has that kind.
\<close>

theorem from_json_unknown_kind_accepted:
  "from_json example_lib
     (JDict [(''date'', JStr ''2024-01-15''), (''amount'', JFloat 5), (''kind'', JStr ''transfer'')])
     = Inr transfer \<and>
   kind transfer \<noteq> ''income'' \<and> kind transfer \<noteq> ''expense''"
  by (simp add: json_defs parse_ymd_examples transfer_def)

text \<open>
  Claim C2, amended. When the key \<^verbatim>\<open>kind\<close> is missing, \<^verbatim>\<open>from_json\<close> raises.
  When it is present its value is not checked: if the date and the amount of the record
  are read, \<^verbatim>\<open>from_json\<close> returns a transaction whose kind is \<^verbatim>\<open>str\<close> of that
  value, which for a string is the string itself, whatever it is.
\<close>

theorem from_json_kind:
  "(map_of d ''kind'' = None \<longrightarrow> isl (from_json L (JDict d))) \<and>
   (map_of d ''kind'' = Some kv \<and> map_of d ''date'' = Some dv \<and> fromisoformat L dv = Inr dt \<and>
    map_of d ''amount'' = Some av \<and> py_float L av = Inr a \<longrightarrow>
      from_json L (JDict d) =
        Inr \<lparr>date = dt, amount = a, party = py_str L (get_or_empty d ''party''),
             category = py_str L (get_or_empty d ''category''), kind = py_str L kv\<rparr>) \<and>
   py_str L (JStr s) = s"
  by (simp add: from_json_def subscript_def py_str_def split: sum.splits option.splits)

text \<open>A record without \<^verbatim>\<open>kind\<close>, and the record with the kind \<^verbatim>\<open>"transfer"\<close>.\<close>

theorem from_json_kind_witness:
  "map_of [(''date'', JStr ''2024-01-15''), (''amount'', JFloat (5::real))] ''kind'' = None \<and>
   isl (from_json example_lib (JDict [(''date'', JStr ''2024-01-15''), (''amount'', JFloat 5)])) \<and>
   map_of [(''date'', JStr ''2024-01-15''), (''amount'', JFloat (5::real)),
           (''kind'', JStr ''transfer'')] ''kind'' = Some (JStr ''transfer'') \<and>
   fromisoformat example_lib (JStr ''2024-01-15'') = Inr \<lparr>year = 2024, month = 1, day = 15\<rparr> \<and>
   py_float example_lib (JFloat 5) = Inr 5 \<and>
   from_json example_lib
     (JDict [(''date'', JStr ''2024-01-15''), (''amount'', JFloat 5), (''kind'', JStr ''transfer'')])
     = Inr \<lparr>date = \<lparr>year = 2024, month = 1, day = 15\<rparr>, amount = 5, party = [],
            category = [], kind = ''transfer''\<rparr>"
  using from_json_kind[where d = "[(''date'', JStr ''2024-01-15''), (''amount'', JFloat 5)]"
      and L = example_lib]
    from_json_kind[where d = "[(''date'', JStr ''2024-01-15''), (''amount'', JFloat 5),
                               (''kind'', JStr ''transfer'')]"
      and kv = "JStr ''transfer''" and dv = "JStr ''2024-01-15''" and L = example_lib
      and dt = "\<lparr>year = 2024, month = 1, day = 15\<rparr>" and av = "JFloat 5" and a = 5]
  by (simp add: fromisoformat_def parse_ymd_examples py_float_def py_str_def get_or_empty_def)

subsection \<open>Loading\<close>

lemma from_json_all_fails:
  "item \<in> set items \<Longrightarrow> from_json L item = Inl e \<Longrightarrow> isl (from_json_all L items)"
  by (induction items) (auto split: sum.splits)

lemma from_json_all_Inr:
  "from_json_all L items = Inr txs \<longleftrightarrow> map (from_json L) items = map Inr txs"
proof (induction items arbitrary: txs)
  case Nil
  then show ?case by auto
next
  case (Cons item items)
  show ?case
  proof (cases txs)
    case Nil
    then show ?thesis by (simp split: sum.splits)
  next
    case (Cons tx txs')
    then show ?thesis
      using Cons.IH[of txs'] by (auto split: sum.splits)
  qed
qed

lemma new_book_eq: "new_book txs = \<lparr>transactions = txs\<rparr>"
  by (simp add: new_book_def)

text \<open>
  Claim C3. \<^verbatim>\<open>load_book\<close> returns a ledger in every case, never an exception. When
  there is no file, when the file cannot be read or is not JSON, when its value has no
  list of records to iterate over, and when \<^verbatim>\<open>from_json\<close> raises on any one record
  of the file (whatever the reason), that ledger is empty, the records that do parse
  included. Only when every record parses does the ledger hold transactions: all of them,
  in the order of the file.
\<close>

theorem load_book_all_or_nothing:
  "load_book L NoFile = \<lparr>transactions = []\<rparr> \<and>
   load_book L ReadError = \<lparr>transactions = []\<rparr> \<and>
   load_book L DecodeError = \<lparr>transactions = []\<rparr> \<and>
   (isl (get_transactions raw) \<longrightarrow> load_book L (Parsed raw) = \<lparr>transactions = []\<rparr>) \<and>
   (get_transactions raw = Inr v \<and> isl (py_iter v) \<longrightarrow>
      load_book L (Parsed raw) = \<lparr>transactions = []\<rparr>) \<and>
   (get_transactions raw = Inr v \<and> py_iter v = Inr items \<and>
      (\<exists>item \<in> set items. isl (from_json L item)) \<longrightarrow>
      load_book L (Parsed raw) = \<lparr>transactions = []\<rparr>) \<and>
   (get_transactions raw = Inr v \<and> py_iter v = Inr items \<and>
      map (from_json L) items = map Inr txs \<longrightarrow>
      load_book L (Parsed raw) = \<lparr>transactions = txs\<rparr>)"
proof -
  have a: "load_book L (Parsed raw) = \<lparr>transactions = []\<rparr>"
    if "get_transactions raw = Inr v" "py_iter v = Inr items"
      "item \<in> set items" "isl (from_json L item)" for item
  proof -
    from that(4) obtain e where "from_json L item = Inl e" by (cases "from_json L item") auto
    with that(3) have "isl (from_json_all L items)" by (rule from_json_all_fails)
    then show ?thesis
      using that(1,2) by (auto simp: load_book_def read_book_def new_book_eq split: sum.splits)
  qed
  have b: "load_book L (Parsed raw) = \<lparr>transactions = txs\<rparr>"
    if "get_transactions raw = Inr v" "py_iter v = Inr items"
      "map (from_json L) items = map Inr txs"
    using that by (simp add: load_book_def read_book_def new_book_eq from_json_all_Inr[symmetric])
  show ?thesis
    using a b by (auto simp: load_book_def read_book_def new_book_eq split: sum.splits)
qed

text \<open>
  A file with the record of \<open>salary\<close> and a record whose amount is \<^verbatim>\<open>"abc"\<close> loads
  as the empty ledger; without the second record it loads as the ledger of \<open>salary\<close>.
\<close>

theorem load_book_all_or_nothing_witness:
  "get_transactions (JDict [(''transactions'', JList [to_json salary, bad_amount])]) =
     Inr (JList [to_json salary, bad_amount]) \<and>
   py_iter (JList [to_json salary, bad_amount]) = Inr [to_json salary, bad_amount] \<and>
   from_json example_lib (to_json salary) = Inr salary \<and>
   from_json example_lib bad_amount = Inl ValueError \<and>
   load_book example_lib (Parsed (JDict [(''transactions'', JList [to_json salary, bad_amount])]))
     = \<lparr>transactions = []\<rparr> \<and>
   load_book example_lib (Parsed (JDict [(''transactions'', JList [to_json salary])]))
     = \<lparr>transactions = [salary]\<rparr>"
  using load_book_all_or_nothing[where L = example_lib
      and raw = "JDict [(''transactions'', JList [to_json salary, bad_amount])]"
      and v = "JList [to_json salary, bad_amount]" and items = "[to_json salary, bad_amount]"]
    load_book_all_or_nothing[where L = example_lib
      and raw = "JDict [(''transactions'', JList [to_json salary])]"
      and v = "JList [to_json salary]" and items = "[to_json salary]" and txs = "[salary]"]
  by (simp add: get_transactions_def py_iter_def from_json_salary from_json_bad_amount)

subsection \<open>Years\<close>

text \<open>
  Claim C8. On a ledger with transactions, \<^verbatim>\<open>all_years\<close> returns the years of their
  dates, each once, in ascending order; on the empty ledger it returns the one-element
  list of the current year.
\<close>

theorem all_years_sorted_distinct:
  "(transactions book = [] \<longrightarrow> all_years today book = [year today]) \<and>
   (transactions book \<noteq> [] \<longrightarrow>
      sorted (all_years today book) \<and> distinct (all_years today book) \<and>
      set (all_years today book) = (\<lambda>tx. year (date tx)) ` set (transactions book))"
proof -
  let ?Y = "(\<lambda>tx. year (date tx)) ` set (transactions book)"
  have fin: "finite ?Y" by simp
  have nil: "sorted_list_of_set ?Y = [] \<longleftrightarrow> transactions book = []"
    using sorted_list_of_set_eq_Nil_iff[OF fin] by simp
  show ?thesis
    using nil by (simp add: all_years_def Let_def del: sorted_list_of_set_eq_Nil_iff)
qed

text \<open>The empty ledger on 2026-11-04, and a ledger of three transactions of 2024.\<close>

theorem all_years_sorted_distinct_witness:
  "all_years \<lparr>year = 2026, month = 11, day = 4\<rparr> \<lparr>transactions = ([] :: real Transaction list)\<rparr> = [2026] \<and>
   transactions \<lparr>transactions = [food_feb, salary, food_jan]\<rparr> \<noteq> [] \<and>
   all_years \<lparr>year = 2026, month = 11, day = 4\<rparr> \<lparr>transactions = [food_feb, salary, food_jan]\<rparr> = [2024]"
  using all_years_sorted_distinct[of "\<lparr>transactions = ([] :: real Transaction list)\<rparr>" "\<lparr>year = 2026, month = 11, day = 4\<rparr>"]
    all_years_sorted_distinct[of "\<lparr>transactions = [food_feb, salary, food_jan]\<rparr>" "\<lparr>year = 2026, month = 11, day = 4\<rparr>"]
  by (simp add: all_years_def example_defs)

subsection \<open>Removal\<close>











subsection \<open>Monthly and yearly totals\<close>

text \<open>
  The first loop of \<^verbatim>\<open>monthly_totals\<close>, from any dictionary that has the months of
  the transactions among its keys: no key is added, and each bucket grows by the amounts
  of its month, added from the left in the order of the ledger, into \<^verbatim>\<open>income\<close> for
  the kind \<^verbatim>\<open>"income"\<close> and into \<^verbatim>\<open>expense\<close> for every other kind.
\<close>

lemma add_to_months_spec:
  fixes txs :: "'a::plus Transaction list"
  assumes "\<forall>tx\<in>set txs. month (date tx) \<in> fst ` set totals"
  shows "\<exists>totals'. add_to_months txs totals = Inr totals' \<and> map fst totals' = map fst totals \<and>
    (\<forall>m b. map_of totals m = Some b \<longrightarrow> map_of totals' m =
       Some \<lparr>income = foldl (+) (income b)
                 (map amount [tx\<leftarrow>txs. month (date tx) = m \<and> kind tx = ''income'']),
             expense = foldl (+) (expense b)
                 (map amount [tx\<leftarrow>txs. month (date tx) = m \<and> kind tx \<noteq> ''income'']),
             net = net b\<rparr>)"
  using assms
proof (induction txs arbitrary: totals)
  case Nil
  then show ?case by simp
next
  case (Cons tx txs)
  define m0 where "m0 = month (date tx)"
  from Cons.prems have "m0 \<in> fst ` set totals" by (simp add: m0_def)
  then obtain b0 where b0: "map_of totals m0 = Some b0"
    by (metis map_of_eq_None_iff not_Some_eq)
  define b1 where "b1 = (if kind tx = ''income'' then b0\<lparr>income := income b0 + amount tx\<rparr>
     else b0\<lparr>expense := expense b0 + amount tx\<rparr>)"
  define totals1 where "totals1 = AList.update m0 b1 totals"
  have keys1: "map fst totals1 = map fst totals"
    using \<open>m0 \<in> fst ` set totals\<close> by (simp add: totals1_def update_keys)
  then have "fst ` set totals1 = fst ` set totals"
    by (metis list.set_map)
  with Cons.prems have "\<forall>tx\<in>set txs. month (date tx) \<in> fst ` set totals1" by simp
  from Cons.IH[OF this] obtain totals' where
    r: "add_to_months txs totals1 = Inr totals'" and k: "map fst totals' = map fst totals1"
    and v: "\<And>m b. map_of totals1 m = Some b \<Longrightarrow> map_of totals' m =
       Some \<lparr>income = foldl (+) (income b)
                 (map amount [tx\<leftarrow>txs. month (date tx) = m \<and> kind tx = ''income'']),
             expense = foldl (+) (expense b)
                 (map amount [tx\<leftarrow>txs. month (date tx) = m \<and> kind tx \<noteq> ''income'']),
             net = net b\<rparr>"
    by blast
  have step: "add_to_months (tx # txs) totals = Inr totals'"
    using b0 r by (simp add: m0_def[symmetric] b1_def totals1_def)
  have "map_of totals' m =
       Some \<lparr>income = foldl (+) (income b)
                 (map amount [t\<leftarrow>tx # txs. month (date t) = m \<and> kind t = ''income'']),
             expense = foldl (+) (expense b)
                 (map amount [t\<leftarrow>tx # txs. month (date t) = m \<and> kind t \<noteq> ''income'']),
             net = net b\<rparr>"
    if "map_of totals m = Some b" for m b
  proof (cases "m = m0")
    case True
    with that b0 have "b = b0" by simp
    have "map_of totals1 m = Some b1"
      using True by (simp add: totals1_def update_conv')
    from v[OF this] show ?thesis
      using True \<open>b = b0\<close> by (simp add: b1_def m0_def)
  next
    case False
    then have "map_of totals1 m = Some b"
      using that by (simp add: totals1_def update_conv')
    from v[OF this] show ?thesis
      using False by (simp add: m0_def)
  qed
  with step k keys1 show ?case by simp
qed

lemma map_of_months:
  "m \<in> {1..12} \<Longrightarrow> map_of (map (\<lambda>m. (m, z)) [1..12]) m = Some z"
  by (simp add: map_of_map_restrict)

lemma map_of_set_net:
  "map_of (map (\<lambda>(m, b). (m, set_net b)) totals) m = map_option set_net (map_of totals m)"
  by (induction totals) auto

lemma filter_year_month:
  "[tx\<leftarrow>for_year book y. month (date tx) = m \<and> P tx] =
   [tx\<leftarrow>for_year_and_month book y (Some m). P tx]"
  by (simp add: for_year_def for_year_and_month_def conj_commute conj_left_commute)

lemma monthly_totals_spec:
  fixes book :: "'a::{zero,plus,minus} FinanceBook"
  assumes "\<forall>tx\<in>set (transactions book). valid_date (date tx)"
  shows "\<exists>mt. monthly_totals book y = Inr mt \<and> map fst mt = [1..12] \<and>
    (\<forall>m\<in>{1..12}. map_of mt m =
       Some \<lparr>income = py_sum (map amount
                 [tx\<leftarrow>for_year_and_month book y (Some m). kind tx = ''income'']),
             expense = py_sum (map amount
                 [tx\<leftarrow>for_year_and_month book y (Some m). kind tx \<noteq> ''income'']),
             net = py_sum (map amount
                 [tx\<leftarrow>for_year_and_month book y (Some m). kind tx = ''income''])
               - py_sum (map amount
                 [tx\<leftarrow>for_year_and_month book y (Some m). kind tx \<noteq> ''income''])\<rparr>)"
proof -
  let ?z = "\<lparr>income = 0::'a, expense = 0, net = 0\<rparr>"
  let ?init = "map (\<lambda>m. (m, ?z)) [1..12]"
  have keys: "map fst ?init = [1..12]"
    by (simp add: comp_def)
  then have dom: "fst ` set ?init = {1..12}"
    by (metis list.set_map set_upto)
  have "\<forall>tx\<in>set (for_year book y). month (date tx) \<in> fst ` set ?init"
    unfolding dom using assms by (auto simp: for_year_def valid_date_def)
  from add_to_months_spec[OF this] obtain totals where
    r: "add_to_months (for_year book y) ?init = Inr totals"
    and k: "map fst totals = map fst ?init"
    and v: "\<And>m b. map_of ?init m = Some b \<Longrightarrow> map_of totals m =
       Some \<lparr>income = foldl (+) (income b)
                 (map amount [tx\<leftarrow>for_year book y. month (date tx) = m \<and> kind tx = ''income'']),
             expense = foldl (+) (expense b)
                 (map amount [tx\<leftarrow>for_year book y. month (date tx) = m \<and> kind tx \<noteq> ''income'']),
             net = net b\<rparr>"
    by blast
  let ?mt = "map (\<lambda>(m, b). (m, set_net b)) totals"
  have 1: "monthly_totals book y = Inr ?mt"
    using r by (simp add: monthly_totals_def)
  have "map fst ?mt = map fst totals"
    by (induction totals) auto
  with k keys have 2: "map fst ?mt = [1..12]" by simp
  have 3: "map_of ?mt m =
       Some \<lparr>income = py_sum (map amount
                 [tx\<leftarrow>for_year_and_month book y (Some m). kind tx = ''income'']),
             expense = py_sum (map amount
                 [tx\<leftarrow>for_year_and_month book y (Some m). kind tx \<noteq> ''income'']),
             net = py_sum (map amount
                 [tx\<leftarrow>for_year_and_month book y (Some m). kind tx = ''income''])
               - py_sum (map amount
                 [tx\<leftarrow>for_year_and_month book y (Some m). kind tx \<noteq> ''income''])\<rparr>"
    if "m \<in> {1..12}" for m
  proof -
    from that have "map_of ?init m = Some ?z" by (rule map_of_months)
    from v[OF this] have "map_of totals m =
       Some \<lparr>income = py_sum (map amount
                 [tx\<leftarrow>for_year_and_month book y (Some m). kind tx = ''income'']),
             expense = py_sum (map amount
                 [tx\<leftarrow>for_year_and_month book y (Some m). kind tx \<noteq> ''income'']),
             net = 0\<rparr>"
      by (simp add: py_sum_def filter_year_month)
    then have "map_option set_net (map_of totals m) = Some (set_net
          \<lparr>income = py_sum (map amount
                 [tx\<leftarrow>for_year_and_month book y (Some m). kind tx = ''income'']),
             expense = py_sum (map amount
                 [tx\<leftarrow>for_year_and_month book y (Some m). kind tx \<noteq> ''income'']),
             net = 0\<rparr>)"
      by simp
    then show ?thesis
      unfolding map_of_set_net by (simp add: set_net_def)
  qed
  from 1 2 3 show ?thesis by blast
qed

lemma upto_1_12: "[1..12] = [1, 2, 3, 4, 5, 6, 7, 8, 9, 10, 11, 12 :: int]"
  by (simp add: upto.simps)

lemma monthly_totals_example:
  "monthly_totals example_book 2024 =
     Inr ((1, \<lparr>income = 100, expense = 40, net = 60\<rparr>) #
          (2, \<lparr>income = 0, expense = 10, net = - 10\<rparr>) #
          map (\<lambda>m. (m, \<lparr>income = 0, expense = 0, net = 0\<rparr>)) [3..12])"
  by (simp add: monthly_totals_def for_year_def example_defs set_net_def upto_1_12)

text \<open>
  Claim C4, as stated, fails on a ledger with the transaction \<open>transfer\<close>, whose kind
  is neither \<^verbatim>\<open>"income"\<close> nor \<^verbatim>\<open>"expense"\<close>: its amount 5 is in the expense
  bucket of January, while the sum over the transactions of kind \<^verbatim>\<open>"expense"\<close> is 0.
\<close>

theorem monthly_totals_other_kind_is_expense:
  "monthly_totals \<lparr>transactions = [transfer]\<rparr> 2024 =
     Inr ((1, \<lparr>income = 0, expense = 5, net = - 5\<rparr>) #
          map (\<lambda>m. (m, \<lparr>income = 0, expense = 0, net = 0\<rparr>)) [2..12]) \<and>
   py_sum (map amount
     [tx\<leftarrow>for_year_and_month \<lparr>transactions = [transfer]\<rparr> 2024 (Some 1). kind tx = ''expense''])
     = 0"
  by (simp add: monthly_totals_def for_year_def for_year_and_month_def example_defs set_net_def
      py_sum_def upto_1_12)

text \<open>
  Claim C4, amended. For every ledger (of calendar dates) and every year,
  \<^verbatim>\<open>monthly_totals\<close> returns exactly 12 entries, one per month 1..12 in this order,
  also for months without transactions. For each month, \<^verbatim>\<open>income\<close> is the sum of the
  amounts of that month's transactions of kind \<^verbatim>\<open>"income"\<close>, \<^verbatim>\<open>expense\<close> is the sum
  of the amounts of that month's transactions of every other kind, and \<^verbatim>\<open>net\<close> is
  \<^verbatim>\<open>income - expense\<close>. On a ledger that holds the two kinds only, the transactions
  of every other kind are those of kind \<^verbatim>\<open>"expense"\<close>.
\<close>

theorem monthly_totals_buckets:
  fixes book :: "'a::{zero,plus,minus} FinanceBook"
  assumes "\<forall>tx\<in>set (transactions book). valid_date (date tx)"
  shows "(\<exists>mt. monthly_totals book y = Inr mt \<and> map fst mt = [1..12] \<and>
    (\<forall>m\<in>{1..12}. map_of mt m =
       Some \<lparr>income = py_sum (map amount
                 [tx\<leftarrow>for_year_and_month book y (Some m). kind tx = ''income'']),
             expense = py_sum (map amount
                 [tx\<leftarrow>for_year_and_month book y (Some m). kind tx \<noteq> ''income'']),
             net = py_sum (map amount
                 [tx\<leftarrow>for_year_and_month book y (Some m). kind tx = ''income''])
               - py_sum (map amount
                 [tx\<leftarrow>for_year_and_month book y (Some m). kind tx \<noteq> ''income''])\<rparr>)) \<and>
    ((\<forall>tx\<in>set (transactions book). kind tx = ''income'' \<or> kind tx = ''expense'') \<longrightarrow>
       (\<forall>m. [tx\<leftarrow>for_year_and_month book y (Some m). kind tx \<noteq> ''income''] =
            [tx\<leftarrow>for_year_and_month book y (Some m). kind tx = ''expense'']))"
proof -
  have "[tx\<leftarrow>for_year_and_month book y (Some m). kind tx \<noteq> ''income''] =
        [tx\<leftarrow>for_year_and_month book y (Some m). kind tx = ''expense'']"
    if "\<forall>tx\<in>set (transactions book). kind tx = ''income'' \<or> kind tx = ''expense''" for m
    using that by (auto simp: for_year_and_month_def intro!: filter_cong)
  with monthly_totals_spec[OF assms, of y] show ?thesis
    by blast
qed

text \<open>The ledger of the three transactions \<open>salary\<close>, \<open>food_jan\<close>, \<open>food_feb\<close>.\<close>

theorem monthly_totals_buckets_witness:
  "valid_date (date salary) \<and> valid_date (date food_jan) \<and> valid_date (date food_feb) \<and>
   monthly_totals example_book 2024 =
     Inr ((1, \<lparr>income = 100, expense = 40, net = 60\<rparr>) #
          (2, \<lparr>income = 0, expense = 10, net = - 10\<rparr>) #
          map (\<lambda>m. (m, \<lparr>income = 0, expense = 0, net = 0\<rparr>)) [3..12])"
proof -
  have v: "\<forall>tx\<in>set (transactions example_book). valid_date (date tx)"
    by (simp add: example_defs valid_date_examples)
  from monthly_totals_buckets[OF v, of 2024] monthly_totals_example show ?thesis
    by (simp add: example_defs valid_date_examples)
qed

text \<open>
  Claim C6. For every ledger (of calendar dates) and every year, both totals are
  returned, and the income of \<^verbatim>\<open>yearly_totals\<close> is the sum of the incomes of the 12
  monthly buckets, taken in the order of the months, its expense is the sum of their
  expenses, and its net is its income minus its expense.
\<close>

theorem yearly_totals_sum_of_months:
  fixes book :: "'a::{zero,plus,minus} FinanceBook"
  assumes "\<forall>tx\<in>set (transactions book). valid_date (date tx)"
  shows "\<exists>mt yt. monthly_totals book y = Inr mt \<and> yearly_totals book y = Inr yt \<and>
    map fst mt = [1..12] \<and>
    income yt = py_sum (map (\<lambda>(m, b). income b) mt) \<and>
    expense yt = py_sum (map (\<lambda>(m, b). expense b) mt) \<and>
    net yt = income yt - expense yt"
proof -
  from monthly_totals_spec[OF assms, of y] obtain mt where
    "monthly_totals book y = Inr mt" "map fst mt = [1..12]"
    by blast
  then show ?thesis
    by (simp add: yearly_totals_def Let_def)
qed

text \<open>The same ledger: 100 of income, 50 of expense.\<close>

theorem yearly_totals_sum_of_months_witness:
  "valid_date (date salary) \<and> valid_date (date food_jan) \<and> valid_date (date food_feb) \<and>
   yearly_totals example_book 2024 = Inr \<lparr>income = 100, expense = 50, net = 50\<rparr>"
proof -
  have v: "\<forall>tx\<in>set (transactions example_book). valid_date (date tx)"
    by (simp add: example_defs valid_date_examples)
  from yearly_totals_sum_of_months[OF v, of 2024] monthly_totals_example show ?thesis
    by (simp add: yearly_totals_def py_sum_def example_defs valid_date_examples)
qed

subsection \<open>Category totals\<close>

text \<open>
  The distinct elements of a list \<open>xs\<close> in the order of their first occurrences are
  \<open>rev (remdups (rev xs))\<close>: \<open>remdups\<close> keeps the last occurrence of each.
\<close>

lemma remdups_snoc: "remdups (ys @ [x]) = filter (\<lambda>y. y \<noteq> x) (remdups ys) @ [x]"
  by (induction ys) auto

lemma first_seen_Cons:
  "rev (remdups (rev (x # xs))) = x # rev (remdups (rev (filter (\<lambda>y. y \<noteq> x) xs)))"
  by (simp add: remdups_snoc rev_filter remdups_filter)

text \<open>
  The loop of \<^verbatim>\<open>category_totals\<close> from any dictionary \<open>b\<close>: the keys of \<open>b\<close> stay
  where they are and the new labels follow in the order in which they are first seen;
  the total of a label grows by the amounts of the transactions of the kind with that
  label, added from the left in the order of the ledger.
\<close>

lemma add_to_buckets_keys:
  "map fst (add_to_buckets txs k b) =
     map fst b @ rev (remdups (rev
       [c\<leftarrow>map label [tx\<leftarrow>txs. kind tx = k]. c \<notin> set (map fst b)]))"
proof (induction txs arbitrary: b)
  case Nil
  then show ?case by simp
next
  case (Cons tx txs)
  show ?case
  proof (cases "kind tx = k")
    case False
    then show ?thesis using Cons.IH[of b] by simp
  next
    case True
    define b1 where "b1 = AList.update (label tx) (get_or_zero b (label tx) + amount tx) b"
    have step: "add_to_buckets (tx # txs) k b = add_to_buckets txs k b1"
      using True by (simp add: b1_def)
    show ?thesis
    proof (cases "label tx \<in> set (map fst b)")
      case True
      then have "map fst b1 = map fst b" by (simp add: b1_def update_keys)
      with Cons.IH[of b1] True \<open>kind tx = k\<close> show ?thesis
        unfolding step by simp
    next
      case False
      then have k1: "map fst b1 = map fst b @ [label tx]" by (simp add: b1_def update_keys)
      have "[c\<leftarrow>map label [tx\<leftarrow>txs. kind tx = k]. c \<notin> set (map fst b1)] =
        filter (\<lambda>y. y \<noteq> label tx) [c\<leftarrow>map label [tx\<leftarrow>txs. kind tx = k]. c \<notin> set (map fst b)]"
        unfolding k1 by (auto intro!: filter_cong)
      with Cons.IH[of b1] False \<open>kind tx = k\<close> show ?thesis
        unfolding step k1 by (simp add: first_seen_Cons del: rev.simps)
    qed
  qed
qed

lemma no_label_no_amounts:
  "c \<notin> label ` {tx \<in> set txs. kind tx = k} \<Longrightarrow> [tx\<leftarrow>txs. kind tx = k \<and> label tx = c] = []"
  by (induction txs) auto

lemma add_to_buckets_values:
  "map_of (add_to_buckets txs k b) c =
     (if c \<in> label ` {tx \<in> set txs. kind tx = k}
      then Some (foldl (+) (get_or_zero b c) (map amount [tx\<leftarrow>txs. kind tx = k \<and> label tx = c]))
      else map_of b c)"
proof (induction txs arbitrary: b)
  case Nil
  then show ?case by simp
next
  case (Cons tx txs)
  show ?case
  proof (cases "kind tx = k")
    case False
    then show ?thesis using Cons.IH[of b] by auto
  next
    case True
    define b1 where "b1 = AList.update (label tx) (get_or_zero b (label tx) + amount tx) b"
    have step: "add_to_buckets (tx # txs) k b = add_to_buckets txs k b1"
      using True by (simp add: b1_def)
    have m1: "map_of b1 = (map_of b)(label tx \<mapsto> get_or_zero b (label tx) + amount tx)"
      by (simp add: b1_def update_conv')
    show ?thesis
    proof (cases "c = label tx")
      case c: True
      have g1: "get_or_zero b1 c = get_or_zero b c + amount tx"
        using c by (simp add: get_or_zero_def m1)
      show ?thesis
      proof (cases "c \<in> label ` {tx \<in> set txs. kind tx = k}")
        case True
        with Cons.IH[of b1] \<open>kind tx = k\<close> c g1 show ?thesis
          unfolding step by simp
      next
        case False
        from no_label_no_amounts[OF this] Cons.IH[of b1] False \<open>kind tx = k\<close> c show ?thesis
          unfolding step by (simp add: m1)
      qed
    next
      case c: False
      then have g1: "get_or_zero b1 c = get_or_zero b c"
        by (simp add: get_or_zero_def m1)
      from c have "map_of b1 c = map_of b c" by (simp add: m1)
      with Cons.IH[of b1] \<open>kind tx = k\<close> c g1 show ?thesis
        unfolding step by auto
    qed
  qed
qed

lemma add_to_buckets_start:
  fixes txs :: "'a::{zero,plus} Transaction list"
  shows "add_to_buckets txs k [] =
     map (\<lambda>c. (c, py_sum (map amount [tx\<leftarrow>[tx\<leftarrow>txs. kind tx = k]. label tx = c])))
       (rev (remdups (rev (map label [tx\<leftarrow>txs. kind tx = k]))))"
proof -
  define M where "M = [tx\<leftarrow>txs. kind tx = k]"
  let ?B = "add_to_buckets txs k []"
  let ?T = "\<lambda>c. py_sum (map amount [tx\<leftarrow>M. label tx = c])"
  let ?F = "rev (remdups (rev (map label M)))"
  have keys: "map fst ?B = ?F"
    using add_to_buckets_keys[of txs k "[]"] by (simp add: M_def)
  then have dist: "distinct (map fst ?B)" by simp
  have val: "map_of ?B c = Some (?T c)" if "c \<in> set ?F" for c
  proof -
    from that have "c \<in> label ` {tx \<in> set txs. kind tx = k}"
      by (auto simp: M_def)
    then show ?thesis
      using add_to_buckets_values[of txs k "[]" c]
      by (simp add: get_or_zero_def py_sum_def M_def conj_commute)
  qed
  have "snd p = ?T (fst p)" if "p \<in> set ?B" for p
  proof -
    from that dist have "map_of ?B (fst p) = Some (snd p)" by simp
    moreover from that have "fst p \<in> set (map fst ?B)" by simp
    then have "map_of ?B (fst p) = Some (?T (fst p))"
      unfolding keys by (rule val)
    ultimately show ?thesis by simp
  qed
  then have "map (\<lambda>p. (fst p, ?T (fst p))) ?B = map (\<lambda>p. p) ?B"
    by (intro map_cong refl) (simp add: prod_eq_iff)
  then have "?B = map (\<lambda>c. (c, ?T c)) (map fst ?B)"
    by (simp add: comp_def)
  then show ?thesis
    unfolding keys M_def .
qed

text \<open>
  The stable sort of the model on keys that \<open><\<close> orders: a permutation, ascending, and
  items that \<open><\<close> does not tell apart keep their order. A linear order orders every
  list, and \<open><\<close> on floats orders every list without \<^verbatim>\<open>nan\<close>.
\<close>

lemma weakly_ordered_cong: "set ks = set ks' \<Longrightarrow> weakly_ordered ks = weakly_ordered ks'"
  by (simp add: weakly_ordered_def)

lemma weakly_ordered_linorder: "weakly_ordered (ks :: 'k::linorder list)"
  by (auto simp: weakly_ordered_def)

lemma mset_insert_by: "mset (insert_by f x ys) = add_mset x (mset ys)"
  by (induction ys) auto

lemma mset_stable_sort_by: "mset (stable_sort_by f xs) = mset xs"
proof -
  have "mset (foldl (\<lambda>zs x. insert_by f x zs) acc xs) = mset acc + mset xs" for acc
    by (induction xs arbitrary: acc) (auto simp: mset_insert_by)
  then show ?thesis by (simp add: stable_sort_by_def)
qed

lemma set_insert_by: "set (insert_by f x ys) = insert x (set ys)"
  by (induction ys) auto

lemma ascending_insert_by:
  assumes "weakly_ordered ks" "f x \<in> set ks" "f ` set ys \<subseteq> set ks"
    and "sorted_wrt (\<lambda>p q. \<not> f q < f p) ys"
  shows "sorted_wrt (\<lambda>p q. \<not> f q < f p) (insert_by f x ys)"
  using assms(3,4)
proof (induction ys)
  case Nil
  then show ?case by simp
next
  case (Cons y ys)
  have irr: "\<not> a < a" if "a \<in> set ks" for a
    using assms(1) that by (simp add: weakly_ordered_def)
  have tr: "a < c" if "a \<in> set ks" "b \<in> set ks" "c \<in> set ks" "a < b" "b < c" for a b c
    using assms(1) that unfolding weakly_ordered_def by blast
  from Cons.prems have ky: "f y \<in> set ks" and kys: "f ` set ys \<subseteq> set ks"
    and lo: "\<forall>q\<in>set ys. \<not> f q < f y" and asc: "sorted_wrt (\<lambda>p q. \<not> f q < f p) ys"
    by auto
  show ?case
  proof (cases "f x < f y")
    case True
    have "\<not> f y < f x"
      using tr[OF assms(2) ky assms(2) True] irr[OF assms(2)] by blast
    moreover have "\<not> f q < f x" if "q \<in> set ys" for q
    proof
      assume "f q < f x"
      moreover from that kys have "f q \<in> set ks" by auto
      ultimately have "f q < f y" using tr[OF _ assms(2) ky _ True] by blast
      with lo that show False by blast
    qed
    ultimately show ?thesis
      using True Cons.prems(2) by simp
  next
    case False
    with lo asc Cons.IH[OF kys asc] show ?thesis
      by (simp add: set_insert_by)
  qed
qed

lemma ties_insert_by:
  assumes "weakly_ordered ks" "f x \<in> set ks" "f ` set ys \<subseteq> set ks" "v \<in> set ks"
    and "sorted_wrt (\<lambda>p q. \<not> f q < f p) ys"
  shows "[p\<leftarrow>insert_by f x ys. \<not> f p < v \<and> \<not> v < f p] =
         [p\<leftarrow>ys. \<not> f p < v \<and> \<not> v < f p] @ [p\<leftarrow>[x]. \<not> f p < v \<and> \<not> v < f p]"
  using assms(3,5)
proof (induction ys)
  case Nil
  then show ?case by simp
next
  case (Cons y ys)
  have nt: "a < c \<or> c < b" if "a \<in> set ks" "b \<in> set ks" "c \<in> set ks" "a < b" for a b c
    using assms(1) that unfolding weakly_ordered_def by blast
  from Cons.prems have ky: "f y \<in> set ks" and kys: "f ` set ys \<subseteq> set ks"
    and lo: "\<forall>q\<in>set ys. \<not> f q < f y" and asc: "sorted_wrt (\<lambda>p q. \<not> f q < f p) ys"
    by auto
  show ?case
  proof (cases "f x < f y")
    case False
    with Cons.IH[OF kys asc] show ?thesis by simp
  next
    case True
    show ?thesis
    proof (cases "\<not> f x < v \<and> \<not> v < f x")
      case False
      with True show ?thesis by auto
    next
      case tie: True
      from nt[OF assms(2) ky assms(4) True] tie have vy: "v < f y" by blast
      have "v < f q" if "q \<in> set ys" for q
      proof -
        from that kys have "f q \<in> set ks" by auto
        from nt[OF assms(4) ky this vy] lo that show ?thesis by blast
      qed
      then have "[p\<leftarrow>ys. \<not> f p < v \<and> \<not> v < f p] = []"
        by (auto simp: filter_empty_conv)
      with True tie vy show ?thesis by simp
    qed
  qed
qed

lemma stable_sort_by_props:
  assumes "weakly_ordered ks" "f ` set xs \<subseteq> set ks"
  shows "sorted_wrt (\<lambda>p q. \<not> f q < f p) (stable_sort_by f xs)"
    and "v \<in> set ks \<Longrightarrow>
      [p\<leftarrow>stable_sort_by f xs. \<not> f p < v \<and> \<not> v < f p] = [p\<leftarrow>xs. \<not> f p < v \<and> \<not> v < f p]"
proof -
  have g: "sorted_wrt (\<lambda>p q. \<not> f q < f p) (foldl (\<lambda>zs x. insert_by f x zs) acc xs) \<and>
      (v \<in> set ks \<longrightarrow> [p\<leftarrow>foldl (\<lambda>zs x. insert_by f x zs) acc xs. \<not> f p < v \<and> \<not> v < f p] =
         [p\<leftarrow>acc. \<not> f p < v \<and> \<not> v < f p] @ [p\<leftarrow>xs. \<not> f p < v \<and> \<not> v < f p])"
    if "f ` set acc \<subseteq> set ks" "sorted_wrt (\<lambda>p q. \<not> f q < f p) acc" for acc
    using assms(2) that
  proof (induction xs arbitrary: acc)
    case Nil
    then show ?case by simp
  next
    case (Cons x xs)
    from Cons.prems(1) have kx: "f x \<in> set ks" and kxs: "f ` set xs \<subseteq> set ks" by auto
    have a1: "sorted_wrt (\<lambda>p q. \<not> f q < f p) (insert_by f x acc)"
      using assms(1) kx Cons.prems(2,3) by (rule ascending_insert_by)
    have k1: "f ` set (insert_by f x acc) \<subseteq> set ks"
      using kx Cons.prems(2) by (simp add: set_insert_by)
    have t1: "[p\<leftarrow>insert_by f x acc. \<not> f p < v \<and> \<not> v < f p] =
         [p\<leftarrow>acc. \<not> f p < v \<and> \<not> v < f p] @ [p\<leftarrow>[x]. \<not> f p < v \<and> \<not> v < f p]"
      if "v \<in> set ks"
      using assms(1) kx Cons.prems(2) that Cons.prems(3) by (rule ties_insert_by)
    from Cons.IH[OF kxs k1 a1] t1 show ?case
      by simp
  qed
  from g[of "[]"] show "sorted_wrt (\<lambda>p q. \<not> f q < f p) (stable_sort_by f xs)"
    by (simp add: stable_sort_by_def)
  from g[of "[]"] show "v \<in> set ks \<Longrightarrow>
      [p\<leftarrow>stable_sort_by f xs. \<not> f p < v \<and> \<not> v < f p] = [p\<leftarrow>xs. \<not> f p < v \<and> \<not> v < f p]"
    by (simp add: stable_sort_by_def)
qed

lemma mset_sort_by_total:
  assumes "(\<forall>xs. mset (other xs) = mset xs) \<or> weakly_ordered (map snd xs)"
  shows "mset (sort_by_total other xs) = mset xs"
  using assms by (auto simp: sort_by_total_def mset_stable_sort_by)

lemma py_sum_nonneg:
  fixes xs :: "'a::{zero,plus,ord} list"
  assumes "(0::'a) \<le> 0" "\<forall>a b::'a. 0 \<le> a \<and> 0 \<le> b \<longrightarrow> 0 \<le> a + b" "\<forall>x\<in>set xs. 0 \<le> x"
  shows "0 \<le> py_sum xs"
proof -
  have "0 \<le> foldl (+) acc xs" if "0 \<le> acc" for acc
    using that assms(3)
  proof (induction xs arbitrary: acc)
    case Nil
    then show ?case by simp
  next
    case (Cons x xs)
    then have "0 \<le> acc + x" using assms(2) by simp
    with Cons show ?case by simp
  qed
  with assms(1) show ?thesis by (simp add: py_sum_def)
qed

lemma matching_filter:
  "[tx\<leftarrow>for_year_and_month book y mo. kind tx = k] =
   [tx\<leftarrow>transactions book. year (date tx) = y \<and>
      (case mo of None \<Rightarrow> True | Some m \<Rightarrow> month (date tx) = m) \<and> kind tx = k]"
  by (cases mo) (auto simp: for_year_and_month_def for_year_def intro!: filter_cong)

lemmas nan_defs = food5_def nan_x_def rent700_def nan_book_def zero_pyfloat_def
  plus_pyfloat_def less_pyfloat_def less_eq_pyfloat_def

lemma weakly_ordered_without_nan: "NaN \<notin> set ks \<Longrightarrow> weakly_ordered ks"
proof -
  assume n: "NaN \<notin> set ks"
  have "\<exists>x. a = Num x" if "a \<in> set ks" for a
  proof (cases a)
    case (Num x)
    then show ?thesis by simp
  next
    case NaN
    with that n show ?thesis by simp
  qed
  then have num: "\<And>a. a \<in> set ks \<Longrightarrow> \<exists>x. a = Num x" .
  show ?thesis
    unfolding weakly_ordered_def
  proof (intro conjI ballI)
    fix a assume "a \<in> set ks"
    with num obtain x where "a = Num x" by blast
    then show "\<not> a < a" by (simp add: less_pyfloat_def)
  next
    fix a b c assume "a \<in> set ks" "b \<in> set ks" "c \<in> set ks"
    with num obtain x y z where "a = Num x" "b = Num y" "c = Num z" by blast
    then show "a < b \<and> b < c \<longrightarrow> a < c" by (simp add: less_pyfloat_def)
  next
    fix a b c assume "a \<in> set ks" "b \<in> set ks" "c \<in> set ks"
    with num obtain x y z where "a = Num x" "b = Num y" "c = Num z" by blast
    then show "a < b \<longrightarrow> a < c \<or> c < b" by (auto simp: less_pyfloat_def)
  qed
qed

lemma category_totals_example:
  "category_totals (\<lambda>xs. xs) ranked_book 2024 ''expense'' None =
     [(''Fun'', 70), (''Food'', 50), (''Rent'', 50), (''(uncategorized)'', 50)]"
  "category_totals (\<lambda>xs. xs) ranked_book 2024 ''expense'' (Some 2) =
     [(''Fun'', 70), (''(uncategorized)'', 50), (''Food'', 10)]"
  by (simp_all add: category_totals_def sort_by_total_def weakly_ordered_linorder
      stable_sort_by_def for_year_and_month_def for_year_def label_def get_or_zero_def
      example_defs)

text \<open>
  Claim C5, as stated, fails on a ledger with the amount \<^verbatim>\<open>nan\<close>, which both the
  entry form (\<^verbatim>\<open>float("nan") < 0\<close> is false) and the loader let in: of the three
  expenses 5 for Food, \<^verbatim>\<open>nan\<close> for X and 700 for Rent, the pairs come back in this
  order, the total 5 before the total 700. (Reversed, the list is one ascending run,
  since neither \<^verbatim>\<open>nan < 700\<close> nor \<^verbatim>\<open>5 < nan\<close> holds.)
\<close>

theorem category_totals_unordered_with_nan:
  "category_totals (\<lambda>xs. xs) nan_book 2024 ''expense'' None =
     [(''Food'', Num 5), (''X'', NaN), (''Rent'', Num 700)] \<and>
   Num 5 < Num 700"
  by (simp add: category_totals_def sort_by_total_def weakly_ordered_def for_year_and_month_def
      for_year_def label_def get_or_zero_def nan_defs)

text \<open>
  Claim C5, amended. For every ledger, year, kind and optional month, let \<open>M\<close> be the
  matching transactions: those of the ledger, in its order, whose date is in the year
  (and in the month, when one is given) and whose kind is the kind asked for. Let the
  label of a transaction be its category, or \<^verbatim>\<open>"(uncategorized)"\<close> when the category is
  empty, and the total of a label the sum of the amounts of the transactions of \<open>M\<close>
  with that label, added from 0 in the order of the ledger.
  \<^item> \<^verbatim>\<open>category_totals\<close> returns one pair per distinct label of \<open>M\<close>, each with
    the total of its label, which is at least 0 when no amount of \<open>M\<close> is below 0 (given
    that \<open>0 \<le> 0\<close> and that a sum of two amounts that are at least 0 is at least 0, as for
    floats). This holds whenever the sort returns a permutation of its list.
  \<^item> When \<open><\<close> orders the totals, as it does when none is \<^verbatim>\<open>nan\<close>, the pairs are in
    descending order of their totals (no pair has a total below that of a later pair),
    and the pairs whose totals \<open><\<close> does not tell apart are in the order in which their
    labels are first seen in the ledger.
\<close>

theorem category_totals_ranked:
  fixes book :: "'a::{zero,plus,ord} FinanceBook"
  shows
    "let M = [tx\<leftarrow>transactions book. year (date tx) = y \<and>
                (case mo of None \<Rightarrow> True | Some m \<Rightarrow> month (date tx) = m) \<and> kind tx = k];
         total = (\<lambda>c. py_sum (map amount [tx\<leftarrow>M. label tx = c]));
         seen = rev (remdups (rev (map label M)));
         R = category_totals other book y k mo
     in ((\<forall>xs. mset (other xs) = mset xs) \<or> weakly_ordered (map total seen) \<longrightarrow>
           distinct (map fst R) \<and>
           set (map fst R) = label ` set M \<and>
           (\<forall>(c, v)\<in>set R. v = total c) \<and>
           ((0::'a) \<le> 0 \<and> (\<forall>a b::'a. 0 \<le> a \<and> 0 \<le> b \<longrightarrow> 0 \<le> a + b) \<and>
            (\<forall>tx\<in>set M. 0 \<le> amount tx) \<longrightarrow> (\<forall>(c, v)\<in>set R. 0 \<le> v))) \<and>
        (weakly_ordered (map total seen) \<longrightarrow>
           sorted_wrt (\<lambda>p q. \<not> snd p < snd q) R \<and>
           (\<forall>v\<in>set (map total seen).
              [p\<leftarrow>R. \<not> snd p < v \<and> \<not> v < snd p] =
              [p\<leftarrow>map (\<lambda>c. (c, total c)) seen. \<not> snd p < v \<and> \<not> v < snd p]))"
proof -
  define M where "M = [tx\<leftarrow>transactions book. year (date tx) = y \<and>
      (case mo of None \<Rightarrow> True | Some m \<Rightarrow> month (date tx) = m) \<and> kind tx = k]"
  define total where "total = (\<lambda>c. py_sum (map amount [tx\<leftarrow>M. label tx = c]))"
  define seen where "seen = rev (remdups (rev (map label M)))"
  define B where "B = add_to_buckets (for_year_and_month book y mo) k []"
  define R where "R = category_totals other book y k mo"
  have B: "B = map (\<lambda>c. (c, total c)) seen"
    unfolding B_def total_def seen_def M_def matching_filter[symmetric]
    by (rule add_to_buckets_start)
  have R: "R = rev (sort_by_total other (rev B))"
    by (simp add: R_def B_def category_totals_def)
  have seen: "distinct seen" "set seen = label ` set M"
    by (simp_all add: seen_def)
  have keysB: "map fst B = seen" and valsB: "map snd B = map total seen"
    by (simp_all add: B comp_def)
  have wo_rev: "weakly_ordered (map snd (rev B))" if "weakly_ordered (map total seen)"
    using that weakly_ordered_cong[of "map snd (rev B)" "map total seen"]
    by (simp add: valsB[symmetric])
  have first: "distinct (map fst R) \<and> set (map fst R) = label ` set M \<and>
      (\<forall>(c, v)\<in>set R. v = total c) \<and>
      ((0::'a) \<le> 0 \<and> (\<forall>a b::'a. 0 \<le> a \<and> 0 \<le> b \<longrightarrow> 0 \<le> a + b) \<and>
       (\<forall>tx\<in>set M. 0 \<le> amount tx) \<longrightarrow> (\<forall>(c, v)\<in>set R. 0 \<le> v))"
    if h: "(\<forall>xs. mset (other xs) = mset xs) \<or> weakly_ordered (map total seen)"
  proof -
    from h wo_rev have "(\<forall>xs. mset (other xs) = mset xs) \<or> weakly_ordered (map snd (rev B))"
      by blast
    then have "mset (sort_by_total other (rev B)) = mset (rev B)"
      by (rule mset_sort_by_total)
    then have msetR: "mset R = mset B"
      by (simp add: R)
    then have setR: "set R = set B"
      by (rule mset_eq_setD)
    from msetR have "mset (map fst R) = mset (map fst B)" by simp
    then have 1: "distinct (map fst R)" and 2: "set (map fst R) = label ` set M"
      using seen keysB by (metis mset_eq_imp_distinct_iff, metis mset_eq_setD)
    have 3: "\<forall>(c, v)\<in>set R. v = total c"
      unfolding setR B by auto
    have 4: "\<forall>(c, v)\<in>set R. 0 \<le> v"
      if "(0::'a) \<le> 0" "\<forall>a b::'a. 0 \<le> a \<and> 0 \<le> b \<longrightarrow> 0 \<le> a + b" "\<forall>tx\<in>set M. 0 \<le> amount tx"
    proof -
      have "0 \<le> total c" for c
        unfolding total_def using that by (intro py_sum_nonneg) auto
      with 3 show ?thesis by auto
    qed
    from 1 2 3 4 show ?thesis by blast
  qed
  have second: "sorted_wrt (\<lambda>p q. \<not> snd p < snd q) R \<and>
      (\<forall>v\<in>set (map total seen).
         [p\<leftarrow>R. \<not> snd p < v \<and> \<not> v < snd p] =
         [p\<leftarrow>map (\<lambda>c. (c, total c)) seen. \<not> snd p < v \<and> \<not> v < snd p])"
    if w: "weakly_ordered (map total seen)"
  proof -
    have sub: "snd ` set (rev B) \<subseteq> set (map total seen)"
      by (simp add: valsB[symmetric])
    from wo_rev[OF w] have R': "R = rev (stable_sort_by snd (rev B))"
      by (simp add: R sort_by_total_def)
    have "sorted_wrt (\<lambda>p q. \<not> snd q < snd p) (stable_sort_by snd (rev B))"
      using w sub by (rule stable_sort_by_props)
    then have a: "sorted_wrt (\<lambda>p q. \<not> snd p < snd q) R"
      by (simp add: R' sorted_wrt_rev)
    have b: "[p\<leftarrow>R. \<not> snd p < v \<and> \<not> v < snd p] =
        [p\<leftarrow>map (\<lambda>c. (c, total c)) seen. \<not> snd p < v \<and> \<not> v < snd p]"
      if "v \<in> set (map total seen)" for v
    proof -
      have "[p\<leftarrow>stable_sort_by snd (rev B). \<not> snd p < v \<and> \<not> v < snd p] =
          [p\<leftarrow>rev B. \<not> snd p < v \<and> \<not> v < snd p]"
        using w sub that by (rule stable_sort_by_props)
      then have "[p\<leftarrow>R. \<not> snd p < v \<and> \<not> v < snd p] = [p\<leftarrow>B. \<not> snd p < v \<and> \<not> v < snd p]"
        by (simp add: R' rev_filter[symmetric])
      then show ?thesis by (simp only: B)
    qed
    from a b show ?thesis by blast
  qed
  from first second show ?thesis
    unfolding Let_def M_def[symmetric] seen_def[symmetric] R_def[symmetric] total_def
    by blast
qed

text \<open>
  Five expenses of 2024 in four categories, three of them with the total 50, in a ledger
  that also holds an expense of 2023 and an income: the largest total comes first and the
  three equal ones keep the order in which they were first seen. With the month 2 given,
  only the three expenses of February count.
\<close>

theorem category_totals_ranked_witness:
  "0 \<le> amount food_jan \<and> 0 \<le> amount rent \<and> 0 \<le> amount food_feb \<and> 0 \<le> amount cash \<and>
   0 \<le> amount cinema \<and>
   [tx\<leftarrow>transactions ranked_book. year (date tx) = 2024 \<and> kind tx = ''expense''] =
     [food_jan, rent, food_feb, cash, cinema] \<and>
   weakly_ordered [50, 50, 50, 70 :: real] \<and>
   category_totals (\<lambda>xs. xs) ranked_book 2024 ''expense'' None =
     [(''Fun'', 70), (''Food'', 50), (''Rent'', 50), (''(uncategorized)'', 50)] \<and>
   category_totals (\<lambda>xs. xs) ranked_book 2024 ''expense'' (Some 2) =
     [(''Fun'', 70), (''(uncategorized)'', 50), (''Food'', 10)]"
proof -
  have M: "[tx\<leftarrow>transactions ranked_book. year (date tx) = 2024 \<and> kind tx = ''expense''] =
      [food_jan, rent, food_feb, cash, cinema]"
    by (simp add: example_defs)
  have amounts: "0 \<le> amount food_jan" "0 \<le> amount rent" "0 \<le> amount food_feb"
    "0 \<le> amount cash" "0 \<le> amount cinema"
    by (simp_all add: example_defs)
  note t = category_totals_ranked[where other = "\<lambda>xs. xs" and book = ranked_book
      and y = 2024 and mo = None and k = "''expense''", unfolded Let_def]
  from t[THEN conjunct2] weakly_ordered_linorder
  have ordered: "sorted_wrt (\<lambda>p q. \<not> snd p < snd q)
      (category_totals (\<lambda>xs. xs) ranked_book 2024 ''expense'' None)"
    by blast
  have "\<forall>tx\<in>set [tx\<leftarrow>transactions ranked_book. year (date tx) = 2024 \<and>
      (case None of None \<Rightarrow> True | Some m \<Rightarrow> month (date tx) = m) \<and> kind tx = ''expense''].
      0 \<le> amount tx"
    using amounts by (simp add: M)
  moreover have "(0::real) \<le> 0" "\<forall>a b::real. 0 \<le> a \<and> 0 \<le> b \<longrightarrow> 0 \<le> a + b"
    by simp_all
  moreover have "\<forall>xs::(string \<times> real) list. mset ((\<lambda>xs. xs) xs) = mset xs"
    by simp
  ultimately
  have "\<forall>(c, v)\<in>set (category_totals (\<lambda>xs. xs) ranked_book 2024 ''expense'' None). 0 \<le> v"
    using t[THEN conjunct1] by blast
  with ordered amounts M category_totals_example weakly_ordered_linorder show ?thesis
    by simp
qed

subsection \<open>Queries\<close>

text \<open>
  Claim C10. Run as programs on the ledger, each of the six queries \<^verbatim>\<open>all_years\<close>,
  \<^verbatim>\<open>for_year\<close>, \<^verbatim>\<open>for_year_and_month\<close>, \<^verbatim>\<open>monthly_totals\<close>,
  \<^verbatim>\<open>yearly_totals\<close> and \<^verbatim>\<open>category_totals\<close> returns the value computed from the
  ledger and leaves the ledger as it found it, for every ledger and all arguments, also
  when it raises. \<^verbatim>\<open>add\<close> and the removal do change the sequence: \<^verbatim>\<open>add\<close> appends
  to it and the removal deletes from it the first entry equal to its argument, when
  there is one.
\<close>

theorem queries_leave_ledger:
  "run_state (all_years_m today) book = (all_years today book, book) \<and>
   run_state (for_year_m y) book = (for_year book y, book) \<and>
   run_state (for_year_and_month_m y mo) book = (for_year_and_month book y mo, book) \<and>
   run_state (monthly_totals_m y) book = (monthly_totals book y, book) \<and>
   run_state (yearly_totals_m y) book = (yearly_totals book y, book) \<and>
   run_state (category_totals_m other y k mo) book = (category_totals other book y k mo, book) \<and>
   run_state (add_m tx) book = ((), add book tx) \<and>
   run_state (remove_m tx) book = remove book tx"
proof -
  have fy: "run_state (for_year_m z) book = (for_year book z, book)" for z
    by (simp add: for_year_m_def for_year_def)
  have fym: "run_state (for_year_and_month_m y mo) book = (for_year_and_month book y mo, book)"
    by (cases mo) (simp_all add: for_year_and_month_m_def for_year_and_month_def fy)
  have mt: "run_state (monthly_totals_m z) book = (monthly_totals book z, book)" for z
    by (simp add: monthly_totals_m_def monthly_totals_def fy Let_def)
  have yt: "run_state (yearly_totals_m y) book = (yearly_totals book y, book)"
    by (simp add: yearly_totals_m_def yearly_totals_def mt)
  have ct: "run_state (category_totals_m other y k mo) book =
      (category_totals other book y k mo, book)"
    by (simp add: category_totals_m_def category_totals_def fym Let_def)
  have ay: "run_state (all_years_m today) book = (all_years today book, book)"
    by (simp add: all_years_m_def all_years_def Let_def)
  have ad: "run_state (add_m tx) book = ((), add book tx)"
    by (simp add: add_m_def add_def State_Monad.update_def State_Monad.bind_def
        State_Monad.get_def State_Monad.set_def)
  have rm: "run_state (remove_m tx) book = remove book tx"
    by (simp add: remove_m_def remove_def split: sum.splits)
  from ay fy fym mt yt ct ad rm show ?thesis
    by simp
qed

text \<open>A query, \<^verbatim>\<open>add\<close> and a removal on a ledger of two transactions.\<close>

theorem queries_leave_ledger_witness:
  "run_state (for_year_m 2024) \<lparr>transactions = [old_rent, salary]\<rparr> =
     ([salary], \<lparr>transactions = [old_rent, salary]\<rparr>) \<and>
   run_state (add_m food_jan) \<lparr>transactions = [old_rent, salary]\<rparr> =
     ((), \<lparr>transactions = [old_rent, salary, food_jan]\<rparr>) \<and>
   run_state (remove_m salary) \<lparr>transactions = [old_rent, salary]\<rparr> =
     (None, \<lparr>transactions = [old_rent]\<rparr>)"
  using queries_leave_ledger[where book = "\<lparr>transactions = [old_rent, salary]\<rparr>" and y = 2024
      and tx = food_jan]
    queries_leave_ledger[where book = "\<lparr>transactions = [old_rent, salary]\<rparr>" and tx = salary]
  by (simp add: for_year_def add_def remove_def example_defs)

end
